theory Spec2Isabelle
  imports Complex_Main "HOL-Library.Sublist"
begin

section \<open>Messages and exceptions\<close>

text \<open>
  The exceptions of \<^verbatim>\<open>action_exceptions.py\<close> together with the built-in Python
  exceptions that the modelled code can raise.  \<open>InvalidGoalException\<close> and
  \<open>InvalidJointException\<close> are the two subclasses of
  \<open>FollowJointTrajectoryException\<close>; every other constructor is an ordinary
  \<open>Exception\<close>.
\<close>

datatype py_error =
    InvalidGoalException
  | InvalidJointException
  | IndexError
  | KeyError
  | AttributeError

text \<open>
  \<open>trajectory_msgs/JointTrajectoryPoint\<close> and \<open>trajectory_msgs/JointTrajectory\<close>.
  Python floats are idealised as reals; durations are counted in nanoseconds.
\<close>

record point =
  positions :: "real list"
  velocities :: "real list"
  accelerations :: "real list"
  effort :: "real list"
  time_from_start :: int

record trajectory =
  frame_id :: string
  joint_names :: "string list"
  points :: "point list"

definition empty_point :: point where
  "empty_point = \<lparr>positions = [], velocities = [], accelerations = [], effort = [],
     time_from_start = 0\<rparr>"

section \<open>merge\_arm\_joints\<close>

text \<open>Python's \<^verbatim>\<open>sub in s\<close> on strings.\<close>

fun starts_with :: "string \<Rightarrow> string \<Rightarrow> bool" where
  "starts_with s [] = True"
| "starts_with [] (c # cs) = False"
| "starts_with (d # ds) (c # cs) = (d = c \<and> starts_with ds cs)"

fun str_in :: "string \<Rightarrow> string \<Rightarrow> bool" where
  "str_in sub [] = (sub = [])"
| "str_in sub (d # ds) = (starts_with (d # ds) sub \<or> str_in sub ds)"

definition is_arm_name :: "string \<Rightarrow> bool" where
  "is_arm_name name = str_in ''joint_arm_l'' name"

text \<open>The first loop: the indexes of the arm joints, and the names that are kept.\<close>

definition arm_indexes_of :: "string list \<Rightarrow> nat list" where
  "arm_indexes_of names = [i \<leftarrow> [0..<length names]. is_arm_name (names ! i)]"

definition kept_names :: "string list \<Rightarrow> string list" where
  "kept_names names = [n \<leftarrow> names. \<not> is_arm_name n]"

text \<open>
  Per trajectory point the function keeps the new point under construction and the three
  lists \<open>total_extension\<close>, \<open>arm_velocities\<close> and \<open>arm_accelerations\<close>; the
  record below is one column of these four parallel lists.
\<close>

record merge_acc =
  new_point :: point
  total_extension :: real
  arm_velocities :: "real list"
  arm_accelerations :: "real list"

definition init_acc :: "point \<Rightarrow> merge_acc" where
  "init_acc p = \<lparr>new_point = empty_point\<lparr>time_from_start := time_from_start p\<rparr>,
     total_extension = 0, arm_velocities = [], arm_accelerations = []\<rparr>"

text \<open>\<^verbatim>\<open>xs[index] if index < len(xs) else None\<close>, as the list of values to append.\<close>

definition supplied :: "real list \<Rightarrow> nat \<Rightarrow> real list" where
  "supplied xs index = (if index < length xs then [xs ! index] else [])"

text \<open>The body of the inner loop once \<^verbatim>\<open>point.positions[index]\<close> has been read.\<close>

definition gather_value :: "nat list \<Rightarrow> nat \<Rightarrow> point \<Rightarrow> merge_acc \<Rightarrow> merge_acc" where
  "gather_value arm index p a =
     (let x = positions p ! index;
          v = supplied (velocities p) index;
          ac = supplied (accelerations p) index
      in if index \<in> set arm
         then a\<lparr>total_extension := total_extension a + x,
                arm_velocities := arm_velocities a @ v,
                arm_accelerations := arm_accelerations a @ ac\<rparr>
         else a\<lparr>new_point := (new_point a)\<lparr>
                  positions := positions (new_point a) @ [x],
                  velocities := velocities (new_point a) @ v,
                  accelerations := accelerations (new_point a) @ ac\<rparr>\<rparr>)"

definition gather :: "nat list \<Rightarrow> nat \<Rightarrow> point \<Rightarrow> merge_acc \<Rightarrow> py_error + merge_acc" where
  "gather arm index p a =
     (if index < length (positions p) then Inr (gather_value arm index p a)
      else Inl IndexError)"

text \<open>The inner loop over the points, for one joint index.\<close>

fun gather_points ::
  "nat list \<Rightarrow> nat \<Rightarrow> point list \<Rightarrow> merge_acc list \<Rightarrow> py_error + merge_acc list" where
  "gather_points arm index (p # ps) (a # as) =
     (case gather arm index p a of
        Inl e \<Rightarrow> Inl e
      | Inr a' \<Rightarrow> (case gather_points arm index ps as of
                     Inl e \<Rightarrow> Inl e
                   | Inr as' \<Rightarrow> Inr (a' # as')))"
| "gather_points arm index ps as = Inr as"

text \<open>The outer loop over the joint indexes.\<close>

fun gather_joints ::
  "nat list \<Rightarrow> nat list \<Rightarrow> point list \<Rightarrow> merge_acc list \<Rightarrow> py_error + merge_acc list" where
  "gather_joints arm [] ps as = Inr as"
| "gather_joints arm (index # rest) ps as =
     (case gather_points arm index ps as of
        Inl e \<Rightarrow> Inl e
      | Inr as' \<Rightarrow> gather_joints arm rest ps as')"

text \<open>\<^verbatim>\<open>sum(vals) / len(vals)\<close>, appended only when \<^verbatim>\<open>vals\<close> is not empty.\<close>

definition mean_of :: "real list \<Rightarrow> real list" where
  "mean_of vals = (if vals = [] then [] else [sum_list vals / real (length vals)])"

text \<open>The last loop: the arm values are appended to each new point.\<close>

definition add_arm_values :: "merge_acc \<Rightarrow> point" where
  "add_arm_values a = (new_point a)\<lparr>
     positions := positions (new_point a) @ [total_extension a],
     velocities := velocities (new_point a) @ mean_of (arm_velocities a),
     accelerations := accelerations (new_point a) @ mean_of (arm_accelerations a)\<rparr>"

definition merge_arm_joints :: "trajectory \<Rightarrow> py_error + trajectory" where
  "merge_arm_joints t =
     (let arm = arm_indexes_of (joint_names t) in
      if arm = [] then Inr t
      else if ''wrist_extension'' \<in> set (joint_names t) then Inl InvalidJointException
      else if length arm \<noteq> 4 then Inl InvalidJointException
      else (case gather_joints arm [0..<length (joint_names t)] (points t)
                   (map init_acc (points t)) of
              Inl e \<Rightarrow> Inl e
            | Inr accs \<Rightarrow>
                Inr \<lparr>frame_id = [],
                     joint_names = kept_names (joint_names t) @ [''wrist_extension''],
                     points = map add_arm_values accs\<rparr>))"

text \<open>
  The four physical segment joints of the telescoping arm, a goal that names exactly
  these four (each once) next to joints that are not arm joints, and the invariant of a
  trajectory goal: every point has one position per joint name.
\<close>

definition segment_names :: "string list" where
  "segment_names = [''joint_arm_l0'', ''joint_arm_l1'', ''joint_arm_l2'', ''joint_arm_l3'']"




section \<open>The driver node and its collaborators\<close>

text \<open>
  The result codes of \<open>control_msgs/FollowJointTrajectory.Result\<close>, a message type of
  ROS that the repository imports.  The code for a time-out is the one the action
  definition calls \<open>GOAL_TOLERANCE_VIOLATED\<close>; \<open>UNKNOWN_ERROR\<close> is the literal
  \<^verbatim>\<open>-100\<close> that \<^verbatim>\<open>execute_trajectory\<close> returns for any other exception.
\<close>

definition SUCCESSFUL :: int where "SUCCESSFUL = 0"
definition INVALID_GOAL :: int where "INVALID_GOAL = - 1"
definition INVALID_JOINTS :: int where "INVALID_JOINTS = - 2"
definition GOAL_TOLERANCE_VIOLATED :: int where "GOAL_TOLERANCE_VIOLATED = - 5"
definition UNKNOWN_ERROR :: int where "UNKNOWN_ERROR = - 100"

text \<open>
  The texts of results.  The Python code formats them from the values named here; a
  text that a command group hands to a callback is kept as it is.
\<close>

datatype message =
    No_Message
  | Reported string
  | No_Valid_Joint_Names "string list"
  | Only_Valid_Joints int nat "string list"
  | Goal_Timeout_Exceeded point
  | Achieved_All_Target_Points
  | Exception_Text py_error

record result =
  error_code :: int
  error_string :: message

text \<open>
  The state of the goal handle of the latest goal (\<open>No_Goal\<close> before the first one):
  a handle is active while it is executing; \<^verbatim>\<open>abort\<close> and \<^verbatim>\<open>succeed\<close> end it.
\<close>

datatype goal_status =
  No_Goal | Goal_Executing | Goal_Succeeded | Goal_Aborted

text \<open>
  What \<^verbatim>\<open>update_execution\<close> of a command group returns: \<^verbatim>\<open>True\<close>, one pair of a
  joint name and its error, a list of such pairs, or anything else.
\<close>

datatype upd_ret =
    Ret_True
  | Ret_Tuple string real
  | Ret_List "(string \<times> real) list"
  | Ret_Other

datatype group =
  Telescoping | Lift | Mobile_Base | Head_Pan | Head_Tilt | Wrist_Yaw | Gripper

record feedback =
  fb_joint_names :: "string list"
  fb_desired :: "real list"
  fb_actual :: "real list"
  fb_error :: "real list"
  fb_stamp :: int

text \<open>
  Every call that leaves the node is recorded, in order: the calls on the command
  groups, on the robot (the hardware interface), on the goal handle and the action
  server, and the publications.
\<close>

datatype event =
    Update group "string list" "string option"
  | Set_Goal group point
  | Init_Execution group
  | Update_Execution group
  | Get_Status
  | Push_Command
  | Base_Set_Velocity real real
  | Base_Translate_By real
  | Base_Rotate_By real
  | Arm_Move_By real
  | Lift_Move_By real
  | Head_Move_By string real
  | End_Of_Arm_Move_By string real
  | Start_Trajectory
  | Stop_Trajectory
  | Clear_Waypoints string
  | Add_Waypoint string int real "real option" "real option"
  | Add_Base_Waypoint int "real option" "real option"
  | Complete_Trajectory
  | Publish_Feedback feedback
  | Publish_State
  | Goal_Abort
  | Goal_Succeed
  | Set_Preempted
  | Spin_Once
  | Rate_Sleep


text \<open>
  The collaborators that are not part of the modelled files: the seven command groups
  (\<^verbatim>\<open>command_groups.py\<close>), the robot, the clock, the goal handle's cancel request and
  the executor behind \<^verbatim>\<open>spin_once\<close>.  They share one state \<open>'w\<close>, about which
  nothing is assumed; each operation may read and change it.  A command group reports a
  violation by calling the callback it is given, any number of times, with a text: the
  texts are returned next to the value.  \<open>spin\<close> tells whether the stop service was
  served while the node was spinning.
\<close>

record 'w collaborators =
  cg_update :: "group \<Rightarrow> string list \<Rightarrow> string option \<Rightarrow> 'w \<Rightarrow> (bool \<times> string list) \<times> 'w"
  cg_num_valid :: "group \<Rightarrow> 'w \<Rightarrow> int"
  cg_set_goal :: "group \<Rightarrow> point \<Rightarrow> bool \<Rightarrow> 'w \<Rightarrow> (bool \<times> string list) \<times> 'w"
  cg_init_execution :: "group \<Rightarrow> 'w \<Rightarrow> 'w"
  cg_goal_reached :: "group \<Rightarrow> 'w \<Rightarrow> bool"
  cg_update_execution :: "group \<Rightarrow> 'w \<Rightarrow> (upd_ret \<times> string list) \<times> 'w"
  robot_get_status :: "'w \<Rightarrow> 'w"
  robot_command :: "event \<Rightarrow> 'w \<Rightarrow> 'w"
  clock_now :: "'w \<Rightarrow> int \<times> 'w"
  cancel_requested :: "'w \<Rightarrow> bool"
  spin :: "'w \<Rightarrow> bool \<times> 'w"
  rclpy_ok :: "'w \<Rightarrow> bool"
  is_trajectory_executing :: "'w \<Rightarrow> bool \<times> 'w"
  component_position :: "string \<Rightarrow> 'w \<Rightarrow> real"
  component_velocity :: "string \<Rightarrow> 'w \<Rightarrow> real"
  rate_sleep :: "'w \<Rightarrow> 'w"

text \<open>
  The fields of \<^verbatim>\<open>StretchBodyNode\<close> and \<^verbatim>\<open>JointTrajectoryAction\<close> that the modelled
  methods read or write.  \<open>read_holds\<close> is the number of read holds of
  \<^verbatim>\<open>robot_mode_rwlock\<close>.
\<close>

record 'w node =
  world :: 'w
  robot_mode :: "string option"
  stop_the_robot :: bool
  read_holds :: int
  linear_velocity_mps :: real
  angular_velocity_radps :: real
  last_twist_time :: int
  twist_timeout :: int
  fail_out_of_range_goal :: bool
  ignore_trajectory_velocities :: bool
  ignore_trajectory_accelerations :: bool
  action_result :: result
  goal_state :: goal_status
  trace :: "event list"

text \<open>What a method does in the end: it returns a result, or an exception leaves it.\<close>

datatype 's outcome = Returned result 's | Raised py_error 's

definition emit :: "event \<Rightarrow> 'w node \<Rightarrow> 'w node" where
  "emit e s = s\<lparr>trace := trace s @ [e]\<rparr>"

text \<open>A call on the robot: recorded, and the robot may change.\<close>

definition command :: "'w collaborators \<Rightarrow> event \<Rightarrow> 'w node \<Rightarrow> 'w node" where
  "command E e s = emit e (s\<lparr>world := robot_command E e (world s)\<rparr>)"

definition get_status :: "'w collaborators \<Rightarrow> 'w node \<Rightarrow> 'w node" where
  "get_status E s = emit Get_Status (s\<lparr>world := robot_get_status E (world s)\<rparr>)"

definition now :: "'w collaborators \<Rightarrow> 'w node \<Rightarrow> int \<times> 'w node" where
  "now E s = (fst (clock_now E (world s)), s\<lparr>world := snd (clock_now E (world s))\<rparr>)"

subsection \<open>The lock on the robot mode\<close>

text \<open>
  Modelled from the spec: \<^verbatim>\<open>rwlock.py\<close> is not among the files.  Many readers may
  hold the lock at once; a mode transition waits until all of them have released it.
  The model counts the read holds; \<open>acquire_write\<close> is \<open>None\<close> when the writer would
  wait for a hold that no running reader is left to release.
\<close>

definition acquire_read :: "'w node \<Rightarrow> 'w node" where
  "acquire_read s = s\<lparr>read_holds := read_holds s + 1\<rparr>"

definition release_read :: "'w node \<Rightarrow> 'w node" where
  "release_read s = s\<lparr>read_holds := read_holds s - 1\<rparr>"

definition acquire_write :: "'w node \<Rightarrow> 'w node option" where
  "acquire_write s = (if 0 < read_holds s then None else Some s)"

subsection \<open>stretch\_driver.py\<close>

record twist =
  linear_x :: real
  angular_z :: real

definition set_mobile_base_velocity_callback ::
  "'w collaborators \<Rightarrow> twist \<Rightarrow> 'w node \<Rightarrow> 'w node" where
  "set_mobile_base_velocity_callback E tw s =
     (let s1 = acquire_read s in
      if robot_mode s1 \<noteq> Some ''navigation'' then s1
      else let s2 = s1\<lparr>linear_velocity_mps := linear_x tw,
                       angular_velocity_radps := angular_z tw\<rparr>;
               s3 = (snd (now E s2))\<lparr>last_twist_time := fst (now E s2)\<rparr>
           in release_read s3)"

text \<open>
  The periodic task.  Between taking and releasing the lock it commands the base (in
  navigation mode only), reads the status once and publishes the state; it has no
  \<^verbatim>\<open>return\<close> statement.
\<close>

definition command_mobile_base_velocity_and_publish_state ::
  "'w collaborators \<Rightarrow> 'w node \<Rightarrow> 'w node" where
  "command_mobile_base_velocity_and_publish_state E s =
     (let s1 = acquire_read s;
          s2 = (if robot_mode s1 = Some ''navigation''
                then (let s' = snd (now E s1) in
                      if fst (now E s1) - last_twist_time s1 < twist_timeout s1
                      then command E Push_Command
                             (command E (Base_Set_Velocity (linear_velocity_mps s')
                                (angular_velocity_radps s')) s')
                      else command E Push_Command (command E (Base_Set_Velocity 0 0) s'))
                else s1);
          s3 = get_status E s2;
          s4 = snd (now E s3);
          s5 = emit Publish_State s4
      in release_read s5)"

text \<open>
  \<^verbatim>\<open>change_mode\<close>: take the lock for writing, set the mode, run the given code,
  release.
\<close>

definition change_mode ::
  "string \<Rightarrow> ('w node \<Rightarrow> 'w node) \<Rightarrow> 'w node \<Rightarrow> 'w node option" where
  "change_mode new_mode code_to_run s =
     (case acquire_write s of
        None \<Rightarrow> None
      | Some s1 \<Rightarrow> Some (code_to_run (s1\<lparr>robot_mode := Some new_mode\<rparr>)))"

definition stop_the_robot_callback :: "'w collaborators \<Rightarrow> 'w node \<Rightarrow> 'w node" where
  "stop_the_robot_callback E s =
     fold (command E)
       [Base_Translate_By 0, Base_Rotate_By 0, Arm_Move_By 0, Lift_Move_By 0, Push_Command,
        Head_Move_By ''head_pan'' 0, Head_Move_By ''head_tilt'' 0,
        End_Of_Arm_Move_By ''wrist_yaw'' 0, End_Of_Arm_Move_By ''stretch_gripper'' 0,
        Push_Command]
       (s\<lparr>stop_the_robot := True\<rparr>)"

text \<open>
  \<^verbatim>\<open>rclpy.spin_once\<close>: the executor serves a pending callback; the one that matters
  to a running goal is the stop service.
\<close>

definition spin_once :: "'w collaborators \<Rightarrow> 'w node \<Rightarrow> 'w node" where
  "spin_once E s =
     (let s1 = emit Spin_Once (s\<lparr>world := snd (spin E (world s))\<rparr>) in
      if fst (spin E (world s)) then stop_the_robot_callback E s1 else s1)"


section \<open>joint\_trajectory\_server.py: the action callbacks\<close>

definition is_active :: "'w node \<Rightarrow> bool" where
  "is_active s = (goal_state s = Goal_Executing)"

definition is_cancel_requested :: "'w collaborators \<Rightarrow> 'w node \<Rightarrow> bool" where
  "is_cancel_requested E s = (goal_state s = Goal_Executing \<and> cancel_requested E (world s))"

definition goal_abort :: "'w node \<Rightarrow> 'w node" where
  "goal_abort s = emit Goal_Abort (s\<lparr>goal_state := Goal_Aborted\<rparr>)"

definition goal_succeed :: "'w node \<Rightarrow> 'w node" where
  "goal_succeed s = emit Goal_Succeed (s\<lparr>goal_state := Goal_Succeeded\<rparr>)"

text \<open>
  \<^verbatim>\<open>self.server.set_preempted()\<close>: a call on the action server, which is not part
  of the modelled files.  The call is recorded and taken to return; what it does to the
  goal is not modelled.
\<close>

definition set_preempted :: "'w node \<Rightarrow> 'w node" where
  "set_preempted s = emit Set_Preempted s"

definition invalid_joints_callback ::
  "'w collaborators \<Rightarrow> message \<Rightarrow> 'w node \<Rightarrow> 'w node" where
  "invalid_joints_callback E err_str s =
     (if is_active s \<or> is_cancel_requested E s
      then goal_abort (s\<lparr>action_result :=
             \<lparr>error_code = INVALID_JOINTS, error_string = err_str\<rparr>\<rparr>)
      else s)"

definition invalid_goal_callback ::
  "'w collaborators \<Rightarrow> message \<Rightarrow> 'w node \<Rightarrow> 'w node" where
  "invalid_goal_callback E err_str s =
     (if is_active s \<or> is_cancel_requested E s
      then goal_abort (s\<lparr>action_result :=
             \<lparr>error_code = INVALID_GOAL, error_string = err_str\<rparr>\<rparr>)
      else s)"

definition goal_tolerance_violated_callback ::
  "'w collaborators \<Rightarrow> message \<Rightarrow> 'w node \<Rightarrow> 'w node" where
  "goal_tolerance_violated_callback E err_str s =
     (if is_active s \<or> is_cancel_requested E s
      then goal_abort (s\<lparr>action_result :=
             \<lparr>error_code = GOAL_TOLERANCE_VIOLATED, error_string = err_str\<rparr>\<rparr>)
      else s)"

definition success_callback :: "message \<Rightarrow> 'w node \<Rightarrow> 'w node" where
  "success_callback success_str s =
     goal_succeed (s\<lparr>action_result :=
       \<lparr>error_code = SUCCESSFUL, error_string = success_str\<rparr>\<rparr>)"

text \<open>\<^verbatim>\<open>return self.result\<close>.\<close>

definition return_result :: "'w node \<Rightarrow> 'w node outcome" where
  "return_result s = Returned (action_result s) s"

text \<open>
  \<^verbatim>\<open>feedback_callback\<close>: the named errors are collected into a dictionary (a later
  pair for the same name replaces an earlier one); for every commanded joint the error
  is looked up (\<open>KeyError\<close> when there is none) and subtracted from the desired position
  (\<open>IndexError\<close> when the point has none at that index).
\<close>

fun clean_named_error :: "upd_ret \<Rightarrow> (string \<times> real) list" where
  "clean_named_error (Ret_Tuple n e) = [(n, e)]"
| "clean_named_error (Ret_List l) = l"
| "clean_named_error r = []"

definition clean_named_errors_dict :: "upd_ret list \<Rightarrow> string \<Rightarrow> real option" where
  "clean_named_errors_dict named_errors = map_of (rev (concat (map clean_named_error named_errors)))"

fun feedback_points ::
  "(string \<Rightarrow> real option) \<Rightarrow> real list \<Rightarrow> nat \<Rightarrow> string list
     \<Rightarrow> py_error + (real list \<times> real list)" where
  "feedback_points d desired i [] = Inr ([], [])"
| "feedback_points d desired i (name # rest) =
     (case d name of
        None \<Rightarrow> Inl KeyError
      | Some e \<Rightarrow>
          if i < length desired
          then (case feedback_points d desired (Suc i) rest of
                  Inl x \<Rightarrow> Inl x
                | Inr r \<Rightarrow> Inr (e # fst r, (desired ! i - e) # snd r))
          else Inl IndexError)"

definition feedback_callback ::
  "'w collaborators \<Rightarrow> string list \<Rightarrow> point \<Rightarrow> upd_ret list \<Rightarrow> 'w node
     \<Rightarrow> py_error + 'w node" where
  "feedback_callback E commanded_joint_names desired_point named_errors s =
     (case feedback_points (clean_named_errors_dict named_errors)
             (positions desired_point) 0 commanded_joint_names of
        Inl x \<Rightarrow> Inl x
      | Inr r \<Rightarrow>
          Inr (emit (Publish_Feedback
                 \<lparr>fb_joint_names = commanded_joint_names,
                  fb_desired = positions desired_point,
                  fb_actual = snd r, fb_error = fst r,
                  fb_stamp = fst (now E s)\<rparr>) (snd (now E s))))"

section \<open>execute\_cb: the position and navigation path\<close>

definition command_groups :: "group list" where
  "command_groups = [Telescoping, Lift, Mobile_Base, Head_Pan, Head_Tilt, Wrist_Yaw, Gripper]"

text \<open>\<^verbatim>\<open>default_goal_timeout_s = 10.0\<close>, as a duration in nanoseconds.\<close>

definition default_goal_timeout_duration :: int where
  "default_goal_timeout_duration = 10 * 1000000000"

text \<open>The list comprehensions over the command groups, left to right.\<close>

fun update_all ::
  "'w collaborators \<Rightarrow> group list \<Rightarrow> string list \<Rightarrow> 'w node \<Rightarrow> bool list \<times> 'w node" where
  "update_all E [] names s = ([], s)"
| "update_all E (c # cs) names s =
     (let r = cg_update E c names (robot_mode s) (world s);
          s1 = fold (invalid_joints_callback E) (map Reported (snd (fst r)))
                 (emit (Update c names (robot_mode s)) (s\<lparr>world := snd r\<rparr>));
          rest = update_all E cs names s1
      in (fst (fst r) # fst rest, snd rest))"

fun set_goal_all ::
  "'w collaborators \<Rightarrow> group list \<Rightarrow> point \<Rightarrow> 'w node \<Rightarrow> bool list \<times> 'w node" where
  "set_goal_all E [] pt s = ([], s)"
| "set_goal_all E (c # cs) pt s =
     (let r = cg_set_goal E c pt (fail_out_of_range_goal s) (world s);
          s1 = fold (invalid_goal_callback E) (map Reported (snd (fst r)))
                 (emit (Set_Goal c pt) (s\<lparr>world := snd r\<rparr>));
          rest = set_goal_all E cs pt s1
      in (fst (fst r) # fst rest, snd rest))"

fun init_execution_all :: "'w collaborators \<Rightarrow> group list \<Rightarrow> 'w node \<Rightarrow> 'w node" where
  "init_execution_all E [] s = s"
| "init_execution_all E (c # cs) s =
     init_execution_all E cs
       (emit (Init_Execution c) (s\<lparr>world := cg_init_execution E c (world s)\<rparr>))"

fun update_execution_all ::
  "'w collaborators \<Rightarrow> group list \<Rightarrow> 'w node \<Rightarrow> upd_ret list \<times> 'w node" where
  "update_execution_all E [] s = ([], s)"
| "update_execution_all E (c # cs) s =
     (let r = cg_update_execution E c (world s);
          s1 = fold success_callback (map Reported (snd (fst r)))
                 (emit (Update_Execution c) (s\<lparr>world := snd r\<rparr>));
          rest = update_execution_all E cs s1
      in (fst (fst r) # fst rest, snd rest))"

definition goals_reached :: "'w collaborators \<Rightarrow> 'w node \<Rightarrow> bool list" where
  "goals_reached E s = map (\<lambda>c. cg_goal_reached E c (world s)) command_groups"

text \<open>
  One pass through the body of the \<^verbatim>\<open>while not all(goals_reached)\<close> loop: it leaves
  the function (\<open>Leave\<close>), or ends with the new list of reached goals (\<open>Again\<close>).
\<close>

datatype 's pass = Leave "'s outcome" | Again "bool list" 's

definition poll_body ::
  "'w collaborators \<Rightarrow> string list \<Rightarrow> point \<Rightarrow> int \<Rightarrow> 'w node \<Rightarrow> 'w node pass" where
  "poll_body E commanded_joint_names pt goal_start_time s =
     (let s1 = snd (now E s) in
      if fst (now E s) - goal_start_time > default_goal_timeout_duration
      then Leave (return_result (release_read
             (goal_tolerance_violated_callback E (Goal_Timeout_Exceeded pt) s1)))
      else if stop_the_robot s1 \<or> is_cancel_requested E s1
      then Leave (return_result (release_read
             ((set_preempted s1)\<lparr>stop_the_robot := False\<rparr>)))
      else (let s2 = get_status E s1;
                r = update_execution_all E command_groups s2
            in if list_ex (\<lambda>ret. ret = Ret_True) (fst r)
               then Leave (return_result (release_read (snd r)))
               else (case feedback_callback E commanded_joint_names pt (fst r) (snd r) of
                       Inl x \<Rightarrow> Leave (Raised x (snd r))
                     | Inr s3 \<Rightarrow> Again (goals_reached E s3) (spin_once E s3))))"

text \<open>
  The loop.  It need not end (the clock may stand still while a goal is never reached):
  \<open>None\<close> is a loop that runs forever, \<open>Some (Inr s)\<close> one that ends with every goal
  reached, \<open>Some (Inl out)\<close> one that leaves the function.
\<close>

partial_function (option) poll_loop ::
  "'w collaborators \<Rightarrow> string list \<Rightarrow> point \<Rightarrow> int \<Rightarrow> bool list \<Rightarrow> 'w node
     \<Rightarrow> ('w node outcome + 'w node) option" where
  "poll_loop E commanded_joint_names pt goal_start_time reached s =
     (if list_all (\<lambda>b. b) reached then Some (Inr s)
      else (case poll_body E commanded_joint_names pt goal_start_time s of
              Leave out \<Rightarrow> Some (Inl out)
            | Again reached' s' \<Rightarrow>
                poll_loop E commanded_joint_names pt goal_start_time reached' s'))"

declare poll_loop.simps [code]

text \<open>The \<^verbatim>\<open>for\<close> loop over the points of the goal.\<close>

fun execute_points ::
  "'w collaborators \<Rightarrow> string list \<Rightarrow> point list \<Rightarrow> 'w node
     \<Rightarrow> ('w node outcome + 'w node) option" where
  "execute_points E commanded_joint_names [] s = Some (Inr s)"
| "execute_points E commanded_joint_names (pt # pts) s =
     (let valid_goals = set_goal_all E command_groups pt s in
      if \<not> list_all (\<lambda>b. b) (fst valid_goals)
      then Some (Inl (return_result (release_read (snd valid_goals))))
      else (let s1 = get_status E (snd valid_goals);
                s2 = init_execution_all E command_groups s1;
                s3 = command E Push_Command s2;
                reached = goals_reached E s3;
                goal_start_time = fst (now E s3);
                s4 = snd (now E s3)
            in case poll_loop E commanded_joint_names pt goal_start_time reached s4 of
                 None \<Rightarrow> None
               | Some (Inl out) \<Rightarrow> Some (Inl out)
               | Some (Inr s5) \<Rightarrow> execute_points E commanded_joint_names pts s5))"

text \<open>
  The body of \<^verbatim>\<open>execute_cb\<close> for a mode other than manipulation, from the moment
  the goal handle is stored.  The goal's joint names reach the command groups as they
  were received.
\<close>

definition execute_position ::
  "'w collaborators \<Rightarrow> trajectory \<Rightarrow> 'w node \<Rightarrow> 'w node outcome option" where
  "execute_position E goal s =
     (let s1 = acquire_read (s\<lparr>goal_state := Goal_Executing, stop_the_robot := False\<rparr>);
          commanded_joint_names = joint_names goal;
          updates = update_all E command_groups commanded_joint_names s1;
          s2 = snd updates
      in if \<not> list_all (\<lambda>b. b) (fst updates)
         then Some (return_result (release_read s2))
         else (let num_valid_points =
                     sum_list (map (\<lambda>c. cg_num_valid E c (world s2)) command_groups)
               in if num_valid_points \<le> 0
                  then Some (return_result (release_read
                         (invalid_joints_callback E (No_Valid_Joint_Names commanded_joint_names) s2)))
                  else if num_valid_points \<noteq> int (length commanded_joint_names)
                  then Some (return_result (release_read
                         (invalid_joints_callback E
                            (Only_Valid_Joints num_valid_points (length commanded_joint_names)
                               commanded_joint_names) s2)))
                  else (case execute_points E commanded_joint_names (points goal) s2 of
                          None \<Rightarrow> None
                        | Some (Inl out) \<Rightarrow> Some out
                        | Some (Inr s3) \<Rightarrow>
                            Some (return_result (release_read
                              (success_callback Achieved_All_Target_Points s3))))))"


section \<open>execute\_trajectory: the manipulation path\<close>

text \<open>The keys of \<^verbatim>\<open>get_trajectory_components\<close>; the last one is the base.\<close>

definition trajectory_components :: "string list" where
  "trajectory_components = [''joint_head_pan'', ''joint_head_tilt'', ''joint_wrist_yaw'',
     ''stretch_gripper'', ''wrist_extension'', ''joint_lift'', ''position'']"

text \<open>
  The attribute read \<^verbatim>\<open>goal.joint_names\<close> in the text of the
  \<^verbatim>\<open>InvalidGoalException\<close>.  \<^verbatim>\<open>goal\<close> is the request of the action, whose joint
  names are \<^verbatim>\<open>goal.trajectory.joint_names\<close> (as every other line of the method reads
  them); the request itself has no attribute \<^verbatim>\<open>joint_names\<close>, so the read raises
  \<open>AttributeError\<close> before the exception object exists.
\<close>

definition goal_joint_names :: "trajectory \<Rightarrow> py_error + string list" where
  "goal_joint_names goal = Inl AttributeError"

text \<open>\<^verbatim>\<open>Check for valid positions\<close>: the first point of the wrong length raises.\<close>

fun check_positions :: "trajectory \<Rightarrow> point list \<Rightarrow> py_error + unit" where
  "check_positions goal [] = Inr ()"
| "check_positions goal (pt # pts) =
     (if length (positions pt) \<noteq> length (joint_names goal)
      then (case goal_joint_names goal of
              Inl x \<Rightarrow> Inl x
            | Inr names \<Rightarrow> Inl InvalidGoalException)
      else check_positions goal pts)"

text \<open>\<^verbatim>\<open>Check for invalid names\<close>.\<close>

definition check_names :: "string list \<Rightarrow> py_error + unit" where
  "check_names names =
     (if list_all (\<lambda>name. name \<in> set trajectory_components) names then Inr ()
      else Inl InvalidJointException)"

definition ignore_values :: "'w node \<Rightarrow> point \<Rightarrow> point" where
  "ignore_values s pt =
     pt\<lparr>velocities := (if ignore_trajectory_velocities s then [] else velocities pt),
        accelerations := (if ignore_trajectory_accelerations s then [] else accelerations pt)\<rparr>"

text \<open>
  \<^verbatim>\<open>TrajectoryComponent.add_waypoints\<close>, with the two overrides of
  \<^verbatim>\<open>BaseComponent\<close>: its \<^verbatim>\<open>add_waypoint\<close> derives the position from the time, and
  the trajectory is completed at the end.
\<close>

definition optional :: "real list \<Rightarrow> nat \<Rightarrow> real option" where
  "optional xs index = (if index < length xs then Some (xs ! index) else None)"

fun add_each_waypoint ::
  "'w collaborators \<Rightarrow> string \<Rightarrow> point list \<Rightarrow> nat \<Rightarrow> 'w node \<Rightarrow> py_error \<times> 'w node + 'w node" where
  "add_each_waypoint E name [] index s = Inr s"
| "add_each_waypoint E name (waypoint # rest) index s =
     (if index < length (positions waypoint)
      then add_each_waypoint E name rest index
             (command E
                (if name = ''position''
                 then Add_Base_Waypoint (time_from_start waypoint)
                        (optional (velocities waypoint) index)
                        (optional (accelerations waypoint) index)
                 else Add_Waypoint name (time_from_start waypoint)
                        (positions waypoint ! index)
                        (optional (velocities waypoint) index)
                        (optional (accelerations waypoint) index)) s)
      else Inl (IndexError, s))"

definition add_waypoints ::
  "'w collaborators \<Rightarrow> string \<Rightarrow> point list \<Rightarrow> nat \<Rightarrow> 'w node \<Rightarrow> py_error \<times> 'w node + 'w node" where
  "add_waypoints E name waypoints index s =
     (case add_each_waypoint E name waypoints index (command E (Clear_Waypoints name) s) of
        Inl x \<Rightarrow> Inl x
      | Inr s1 \<Rightarrow> Inr (if name = ''position'' then command E Complete_Trajectory s1 else s1))"

text \<open>
  The loop that sets the initial waypoint of every joint from the measured position
  and velocity and hands the waypoints to the joint's component.
\<close>

fun set_waypoints ::
  "'w collaborators \<Rightarrow> nat \<Rightarrow> string list \<Rightarrow> point list \<Rightarrow> 'w node
     \<Rightarrow> py_error \<times> 'w node + 'w node" where
  "set_waypoints E index [] pts s = Inr s"
| "set_waypoints E index (name # rest) [] s = Inl (IndexError, s)"
| "set_waypoints E index (name # rest) (p0 # later) s =
     (if index < length (positions p0)
      then (let p1 = p0\<lparr>positions := (positions p0)[index := component_position E name (world s)]\<rparr>;
                p2 = (if index < length (velocities p1)
                      then p1\<lparr>velocities := (velocities p1)[index := component_velocity E name (world s)]\<rparr>
                      else p1)
            in case add_waypoints E name (p2 # later) index s of
                 Inl x \<Rightarrow> Inl x
               | Inr s1 \<Rightarrow> set_waypoints E (Suc index) rest (p2 # later) s1)
      else Inl (IndexError, s))"

text \<open>
  The method \<^verbatim>\<open>get_desired_position_at\<close> that the feedback loop calls on a
  component.  No class of \<^verbatim>\<open>trajectory_components.py\<close> defines it (the method they
  define is \<^verbatim>\<open>get_desired_position\<close>), so the call raises \<open>AttributeError\<close>.
\<close>

definition get_desired_position_at :: "string \<Rightarrow> int \<Rightarrow> 'w \<Rightarrow> py_error + real" where
  "get_desired_position_at name dt w = Inl AttributeError"

text \<open>The \<^verbatim>\<open>for joint_name in feedback.joint_names\<close> loop of one poll.\<close>

fun joint_feedback ::
  "'w collaborators \<Rightarrow> int \<Rightarrow> string list \<Rightarrow> 'w \<Rightarrow> feedback \<Rightarrow> py_error + feedback" where
  "joint_feedback E dt [] w fb = Inr fb"
| "joint_feedback E dt (joint_name # rest) w fb =
     (let actual_pos = component_position E joint_name w in
      case get_desired_position_at joint_name dt w of
        Inl x \<Rightarrow> Inl x
      | Inr desired_pos \<Rightarrow>
          joint_feedback E dt rest w
            (fb\<lparr>fb_actual := fb_actual fb @ [actual_pos],
                fb_desired := fb_desired fb @ [desired_pos],
                fb_error := fb_error fb @ [actual_pos - desired_pos]\<rparr>))"

text \<open>One pass through the body of the \<^verbatim>\<open>while\<close> loop of the playback.\<close>

definition playback_body ::
  "'w collaborators \<Rightarrow> string list \<Rightarrow> int \<Rightarrow> 'w node \<Rightarrow> py_error \<times> 'w node + 'w node" where
  "playback_body E names start_time s =
     (let t = fst (now E s); s1 = snd (now E s) in
      case joint_feedback E (t - start_time) names (world s1)
             \<lparr>fb_joint_names = names, fb_desired = [], fb_actual = [], fb_error = [],
              fb_stamp = t\<rparr> of
        Inl x \<Rightarrow> Inl (x, s1)
      | Inr fb \<Rightarrow>
          Inr ((emit Rate_Sleep (emit (Publish_Feedback fb) s1))
                 \<lparr>world := rate_sleep E (world s1)\<rparr>))"

text \<open>
  \<^verbatim>\<open>while rclpy.ok() and self.node.robot.is_trajectory_executing()\<close>; \<open>None\<close> is a
  playback that never reports completion.
\<close>

partial_function (option) playback_loop ::
  "'w collaborators \<Rightarrow> string list \<Rightarrow> int \<Rightarrow> 'w node
     \<Rightarrow> (py_error \<times> 'w node + 'w node) option" where
  "playback_loop E names start_time s =
     (if rclpy_ok E (world s) \<and> fst (is_trajectory_executing E (world s))
      then (case playback_body E names start_time
                   (s\<lparr>world := snd (is_trajectory_executing E (world s))\<rparr>) of
              Inl x \<Rightarrow> Some (Inl x)
            | Inr s1 \<Rightarrow> playback_loop E names start_time s1)
      else Some (Inr (if rclpy_ok E (world s)
                      then s\<lparr>world := snd (is_trajectory_executing E (world s))\<rparr>
                      else s)))"

text \<open>The \<^verbatim>\<open>try\<close> block after the lock has been taken.\<close>

definition try_trajectory ::
  "'w collaborators \<Rightarrow> trajectory \<Rightarrow> 'w node \<Rightarrow> (py_error \<times> 'w node + 'w node) option" where
  "try_trajectory E goal s =
     (case check_positions goal (points goal) of
        Inl x \<Rightarrow> Some (Inl (x, s))
      | Inr u \<Rightarrow>
     (case merge_arm_joints goal of
        Inl x \<Rightarrow> Some (Inl (x, s))
      | Inr merged \<Rightarrow>
     (case check_names (joint_names merged) of
        Inl x \<Rightarrow> Some (Inl (x, s))
      | Inr u \<Rightarrow>
     (let pts = (if ignore_trajectory_velocities s \<or> ignore_trajectory_accelerations s
                 then map (ignore_values s) (points merged) else points merged)
      in case set_waypoints E 0 (joint_names merged) pts s of
           Inl x \<Rightarrow> Some (Inl x)
         | Inr s1 \<Rightarrow>
             (let start_time = fst (now E s1);
                  s2 = command E Start_Trajectory (snd (now E s1))
              in case playback_loop E (joint_names merged) start_time s2 of
                   None \<Rightarrow> None
                 | Some (Inl x) \<Rightarrow> Some (Inl x)
                 | Some (Inr s3) \<Rightarrow>
                     Some (Inr (goal_succeed (command E Stop_Trajectory s3))))))))"

definition is_follow_joint_trajectory_exception :: "py_error \<Rightarrow> bool" where
  "is_follow_joint_trajectory_exception e =
     (e = InvalidGoalException \<or> e = InvalidJointException)"

definition CODE :: "py_error \<Rightarrow> int" where
  "CODE e = (if e = InvalidGoalException then INVALID_GOAL else INVALID_JOINTS)"

text \<open>
  \<^verbatim>\<open>execute_trajectory\<close>: the stop flag is cleared and the lock taken, the
  \<^verbatim>\<open>try\<close> block runs, one of the two handlers turns an exception into a result,
  and \<^verbatim>\<open>finally\<close> releases the lock.
\<close>

definition execute_trajectory ::
  "'w collaborators \<Rightarrow> trajectory \<Rightarrow> 'w node \<Rightarrow> 'w node outcome option" where
  "execute_trajectory E goal s =
     (let s1 = acquire_read (s\<lparr>goal_state := Goal_Executing, stop_the_robot := False\<rparr>) in
      case try_trajectory E goal s1 of
        None \<Rightarrow> None
      | Some (Inr s2) \<Rightarrow>
          Some (Returned \<lparr>error_code = SUCCESSFUL, error_string = Achieved_All_Target_Points\<rparr>
                  (release_read s2))
      | Some (Inl x) \<Rightarrow>
          (if is_follow_joint_trajectory_exception (fst x)
           then Some (Returned \<lparr>error_code = CODE (fst x), error_string = Exception_Text (fst x)\<rparr>
                        (release_read (goal_abort (snd x))))
           else Some (Returned \<lparr>error_code = UNKNOWN_ERROR, error_string = Exception_Text (fst x)\<rparr>
                        (release_read (goal_abort (command E Stop_Trajectory (snd x)))))))"

text \<open>\<^verbatim>\<open>execute_cb\<close>: the manipulation mode has a path of its own.\<close>

definition execute_cb ::
  "'w collaborators \<Rightarrow> trajectory \<Rightarrow> 'w node \<Rightarrow> 'w node outcome option" where
  "execute_cb E goal s =
     (if robot_mode s = Some ''manipulation'' then execute_trajectory E goal s
      else execute_position E goal s)"


section \<open>Reading the record of calls\<close>

text \<open>The state in which a method ends.\<close>

fun final :: "'s outcome \<Rightarrow> 's" where
  "final (Returned r s) = s"
| "final (Raised x s) = s"

text \<open>
  The calls that may follow when a goal with the joint names \<open>names\<close> and the points
  \<open>pts\<close> is handed to the command groups as it was received: every \<^verbatim>\<open>update\<close>
  carries these names and every \<^verbatim>\<open>set_goal\<close> one of these points.
\<close>

fun as_received :: "string list \<Rightarrow> point list \<Rightarrow> event \<Rightarrow> bool" where
  "as_received names pts (Update c n m) = (n = names)"
| "as_received names pts (Set_Goal c p) = (p \<in> set pts)"
| "as_received names pts e = True"

text \<open>\<open>s'\<close> comes after \<open>s\<close>, and the calls made in between are of that kind.\<close>

definition extends :: "string list \<Rightarrow> point list \<Rightarrow> 'w node \<Rightarrow> 'w node \<Rightarrow> bool" where
  "extends names pts s s' = (\<exists>evs. trace s' = trace s @ evs \<and> list_all (as_received names pts) evs)"

section \<open>A node and collaborators to run the model on\<close>

text \<open>
  The node as \<^verbatim>\<open>__init__\<close> and \<^verbatim>\<open>ros_setup\<close> leave it (parameters at their
  declared defaults), and collaborators whose state is a counter: every reading of the
  clock is six seconds after the one before, the telescoping group accepts four joint
  names, every goal is reported as reached, nobody cancels or stops, and a playback,
  once started, keeps executing.
\<close>

definition initial_node :: "'w \<Rightarrow> 'w node" where
  "initial_node w = \<lparr>world = w, robot_mode = None, stop_the_robot = False, read_holds = 0,
     linear_velocity_mps = 0, angular_velocity_radps = 0, last_twist_time = 0,
     twist_timeout = 1000000000, fail_out_of_range_goal = True,
     ignore_trajectory_velocities = False, ignore_trajectory_accelerations = False,
     action_result = \<lparr>error_code = 0, error_string = No_Message\<rparr>,
     goal_state = No_Goal, trace = []\<rparr>"

definition sample :: "nat collaborators" where
  "sample = \<lparr>
     cg_update = (\<lambda>c names mode w. ((True, []), w)),
     cg_num_valid = (\<lambda>c w. if c = Telescoping then 4 else 0),
     cg_set_goal = (\<lambda>c pt fail w. ((True, []), w)),
     cg_init_execution = (\<lambda>c w. w),
     cg_goal_reached = (\<lambda>c w. True),
     cg_update_execution = (\<lambda>c w. ((Ret_Other, []), w)),
     robot_get_status = (\<lambda>w. w),
     robot_command = (\<lambda>e w. w),
     clock_now = (\<lambda>w. (int w * 6000000000, Suc w)),
     cancel_requested = (\<lambda>w. False),
     spin = (\<lambda>w. (False, w)),
     rclpy_ok = (\<lambda>w. True),
     is_trajectory_executing = (\<lambda>w. (True, w)),
     component_position = (\<lambda>name w. 0),
     component_velocity = (\<lambda>name w. 0),
     rate_sleep = (\<lambda>w. w)\<rparr>"


text \<open>A goal for the four segment joints of the arm, each at 0.1.\<close>

definition four_segment_goal :: trajectory where
  "four_segment_goal = \<lparr>frame_id = [], joint_names = segment_names,
     points = [empty_point\<lparr>positions := [1/10, 1/10, 1/10, 1/10]\<rparr>]\<rparr>"




section \<open>Properties of merge\_arm\_joints\<close>









lemma fold_gather_effort:
  "effort (new_point (fold (\<lambda>i. gather_value arm i p) is a))
   = effort (new_point a)"
  by (induction "is" arbitrary: a) (auto simp: gather_value_def Let_def)





lemma filter_arm_indexes:
  "[n \<leftarrow> names. is_arm_name n] = map (nth names) (arm_indexes_of names)"
proof -
  have "[n \<leftarrow> names. is_arm_name n] = [n \<leftarrow> map (nth names) [0..<length names]. is_arm_name n]"
    by (simp add: map_nth)
  also have "\<dots> = map (nth names) (arm_indexes_of names)"
    by (simp add: filter_map arm_indexes_of_def comp_def)
  finally show ?thesis .
qed






lemma upt4: "[0..<4] = [0, 1, 2, 3]"
  by (simp add: upt_rec)

lemma arm_name_evals:
  "is_arm_name ''joint_arm_l0''" "is_arm_name ''joint_arm_l1''"
  "is_arm_name ''joint_arm_l2''" "is_arm_name ''joint_arm_l3''"
  "is_arm_name ''joint_arm_l7''"
  "\<not> is_arm_name ''joint_lift''" "\<not> is_arm_name ''wrist_extension''"
  by (simp_all add: is_arm_name_def)



lemma arm_indexes_empty:
  "arm_indexes_of names = [] \<longleftrightarrow> (\<forall>n \<in> set names. \<not> is_arm_name n)"
proof -
  have "arm_indexes_of names = [] \<longleftrightarrow> [n \<leftarrow> names. is_arm_name n] = []"
    by (simp add: filter_arm_indexes)
  then show ?thesis by (simp add: filter_empty_conv)
qed

lemma segment_names_are_arm_names: "list_all is_arm_name segment_names"
  by (simp add: segment_names_def arm_name_evals)

text \<open>
  Claim C9, as amended.  \<open>merge_arm_joints\<close> returns its input unchanged, without
  raising, if and only if no joint name contains the text \<open>joint_arm_l\<close>; each of the
  four segment names contains it.  (As stated, with "none of the four segment names is
  present", the claim fails for a name such as \<open>joint_arm_l7\<close>, which is none of the
  four and is still taken for an arm joint.)
\<close>

theorem merge_noop_iff:
  "(merge_arm_joints t = Inr t \<longleftrightarrow> (\<forall>n \<in> set (joint_names t). \<not> is_arm_name n))
   \<and> list_all is_arm_name segment_names"
proof (intro conjI iffI)
  assume "\<forall>n \<in> set (joint_names t). \<not> is_arm_name n"
  then have "arm_indexes_of (joint_names t) = []" by (simp add: arm_indexes_empty)
  then show "merge_arm_joints t = Inr t" by (simp add: merge_arm_joints_def)
next
  assume m: "merge_arm_joints t = Inr t"
  have "arm_indexes_of (joint_names t) = []"
  proof (rule ccontr)
    assume ne: "arm_indexes_of (joint_names t) \<noteq> []"
    with m have nw: "''wrist_extension'' \<notin> set (joint_names t)"
      by (auto simp: merge_arm_joints_def Let_def split: if_splits)
    from m ne nw have "joint_names t = kept_names (joint_names t) @ [''wrist_extension'']"
      by (auto simp: merge_arm_joints_def Let_def split: if_splits sum.splits)
        (metis trajectory.select_convs(2))
    then have "''wrist_extension'' \<in> set (joint_names t)"
      by (metis in_set_conv_decomp)
    with nw show False by simp
  qed
  then show "\<forall>n \<in> set (joint_names t). \<not> is_arm_name n" by (simp add: arm_indexes_empty)
next
  show "list_all is_arm_name segment_names" by (rule segment_names_are_arm_names)
qed


theorem merge_noop_iff_witness:
  "merge_arm_joints \<lparr>frame_id = [], joint_names = [''joint_lift'', ''wrist_extension''],
      points = [empty_point\<lparr>positions := [1, 2]\<rparr>]\<rparr>
   = Inr \<lparr>frame_id = [], joint_names = [''joint_lift'', ''wrist_extension''],
      points = [empty_point\<lparr>positions := [1, 2]\<rparr>]\<rparr>
   \<and> \<not> is_arm_name ''joint_lift'' \<and> \<not> is_arm_name ''wrist_extension''
   \<and> merge_arm_joints \<lparr>frame_id = [], joint_names = [''joint_arm_l0'', ''joint_lift''], points = []\<rparr>
      \<noteq> Inr \<lparr>frame_id = [], joint_names = [''joint_arm_l0'', ''joint_lift''], points = []\<rparr>"
proof -
  have a: "\<forall>n \<in> set (joint_names \<lparr>frame_id = [], joint_names = [''joint_lift'', ''wrist_extension''],
      points = [empty_point\<lparr>positions := [1, 2]\<rparr>]\<rparr>). \<not> is_arm_name n"
    by (simp add: arm_name_evals)
  have b: "\<not> (\<forall>n \<in> set (joint_names \<lparr>frame_id = [], joint_names = [''joint_arm_l0'', ''joint_lift''],
      points = []\<rparr>). \<not> is_arm_name n)"
    by (simp add: arm_name_evals)
  show ?thesis
    using a b
      merge_noop_iff[of "\<lparr>frame_id = [], joint_names = [''joint_lift'', ''wrist_extension''],
        points = [empty_point\<lparr>positions := [1, 2]\<rparr>]\<rparr>"]
      merge_noop_iff[of "\<lparr>frame_id = [], joint_names = [''joint_arm_l0'', ''joint_lift''], points = []\<rparr>"]
    by (simp add: arm_name_evals)
qed

theorem merge_noop_counterexample:
  "set segment_names \<inter> set (joint_names \<lparr>frame_id = [], joint_names = [''joint_arm_l7''], points = []\<rparr>) = {}
   \<and> merge_arm_joints \<lparr>frame_id = [], joint_names = [''joint_arm_l7''], points = []\<rparr>
       = Inl InvalidJointException"
  by (simp add: segment_names_def merge_arm_joints_def arm_indexes_of_def arm_name_evals)







section \<open>Properties of the driver node\<close>

lemma velocity_callback_navigation:
  "robot_mode s = Some ''navigation'' \<Longrightarrow>
   read_holds (set_mobile_base_velocity_callback E tw s) = read_holds s"
  by (simp add: set_mobile_base_velocity_callback_def acquire_read_def release_read_def
      now_def Let_def)

lemma emit_read_holds [simp]: "read_holds (emit e s) = read_holds s"
  by (simp add: emit_def)

lemma command_read_holds [simp]: "read_holds (command E e s) = read_holds s"
  by (simp add: command_def)

lemma now_read_holds [simp]: "read_holds (snd (now E s)) = read_holds s"
  by (simp add: now_def)

lemma get_status_read_holds [simp]: "read_holds (get_status E s) = read_holds s"
  by (simp add: get_status_def)

lemma periodic_task_balanced:
  "read_holds (command_mobile_base_velocity_and_publish_state E s) = read_holds s"
  by (simp add: command_mobile_base_velocity_and_publish_state_def acquire_read_def
      release_read_def Let_def)

text \<open>
  Claim C3 at its failing input.  A velocity command that arrives while the mode is
  \<open>position\<close> (any mode but \<open>navigation\<close>) takes the read lock and returns
  without releasing it: a node with no read hold has one after the call, and a mode
  transition then waits for it for ever.  The periodic task and the velocity callback in
  navigation mode give the hold back (\<open>periodic_task_balanced\<close>,
  \<open>velocity_callback_navigation\<close>).
\<close>

theorem velocity_callback_keeps_read_hold:
  "read_holds (set_mobile_base_velocity_callback E tw
      (s\<lparr>robot_mode := Some ''position'', read_holds := 0\<rparr>)) = 1
   \<and> change_mode ''navigation'' code_to_run (set_mobile_base_velocity_callback E tw
      (s\<lparr>robot_mode := Some ''position'', read_holds := 0\<rparr>)) = None"
  by (simp add: set_mobile_base_velocity_callback_def acquire_read_def change_mode_def
      acquire_write_def Let_def)


section \<open>Properties of the manipulation path\<close>

lemma check_positions_mismatch:
  "\<not> list_all (\<lambda>pt. length (positions pt) = length (joint_names goal)) pts \<Longrightarrow>
   check_positions goal pts = Inl AttributeError"
  by (induction pts) (auto simp: goal_joint_names_def)

lemma check_positions_ok:
  "list_all (\<lambda>pt. length (positions pt) = length (joint_names goal)) pts \<Longrightarrow>
   check_positions goal pts = Inr ()"
  by (induction pts) auto

text \<open>
  Claim C4 at its failing input.  In manipulation mode a goal for one joint whose point
  has two positions is not refused with \<open>INVALID_GOAL\<close>: building the text of the
  exception raises \<open>AttributeError\<close>, which the handler for other exceptions answers
  with \<^verbatim>\<open>stop_trajectory\<close> on the robot and the code \<^verbatim>\<open>-100\<close>.
\<close>

theorem length_mismatch_unknown_error:
  "execute_cb E
     \<lparr>frame_id = [], joint_names = [''joint_lift''],
      points = [empty_point\<lparr>positions := [1/2, 1/2]\<rparr>]\<rparr>
     (s\<lparr>robot_mode := Some ''manipulation''\<rparr>)
   = Some (Returned \<lparr>error_code = - 100, error_string = Exception_Text AttributeError\<rparr>
       (s\<lparr>world := robot_command E Stop_Trajectory (world s),
          robot_mode := Some ''manipulation'',
          stop_the_robot := False,
          read_holds := read_holds s,
          goal_state := Goal_Aborted,
          trace := trace s @ [Stop_Trajectory, Goal_Abort]\<rparr>))"
  by (simp add: execute_cb_def execute_trajectory_def try_trajectory_def goal_joint_names_def
      empty_point_def is_follow_joint_trajectory_exception_def UNKNOWN_ERROR_def
      acquire_read_def release_read_def goal_abort_def command_def emit_def)

lemma playback_loop_raises:
  assumes "names \<noteq> []" "rclpy_ok E (world s)" "fst (is_trajectory_executing E (world s))"
  shows "playback_loop E names start_time s
         = Some (Inl (AttributeError,
             snd (now E (s\<lparr>world := snd (is_trajectory_executing E (world s))\<rparr>))))"
proof -
  obtain n ns where n: "names = n # ns" using assms(1) by (cases names) auto
  show ?thesis
    using assms(2,3) unfolding n
    by (subst playback_loop.simps)
       (simp add: playback_body_def get_desired_position_at_def Let_def)
qed

text \<open>
  Claim C1 at its failing input.  In manipulation mode a goal for \<open>joint_lift\<close> with
  one point passes validation and the playback is started once; at the first poll of a
  playback that is executing, the call of \<^verbatim>\<open>get_desired_position_at\<close> raises
  \<open>AttributeError\<close>: no feedback is published, the playback is stopped, the goal is
  aborted and the result carries the code \<^verbatim>\<open>-100\<close>.  By
  \<open>playback_loop_raises\<close> this is what every poll does for a goal with at least one
  joint.
\<close>

theorem playback_poll_unknown_error:
  "execute_cb sample
     \<lparr>frame_id = [], joint_names = [''joint_lift''],
      points = [empty_point\<lparr>positions := [1/2]\<rparr>]\<rparr>
     ((initial_node 0)\<lparr>robot_mode := Some ''manipulation''\<rparr>)
   = Some (Returned \<lparr>error_code = - 100, error_string = Exception_Text AttributeError\<rparr>
       ((initial_node 2)\<lparr>robot_mode := Some ''manipulation'',
          goal_state := Goal_Aborted,
          trace := [Clear_Waypoints ''joint_lift'',
                    Add_Waypoint ''joint_lift'' 0 0 None None,
                    Start_Trajectory, Stop_Trajectory, Goal_Abort]\<rparr>))"
proof -
  let ?goal = "\<lparr>frame_id = [], joint_names = [''joint_lift''],
      points = [empty_point\<lparr>positions := [1/2]\<rparr>]\<rparr>"
  let ?s1 = "(initial_node (0::nat))\<lparr>robot_mode := Some ''manipulation'',
      goal_state := Goal_Executing, read_holds := 1\<rparr>"
  let ?s2 = "?s1\<lparr>trace := [Clear_Waypoints ''joint_lift'',
      Add_Waypoint ''joint_lift'' 0 0 None None]\<rparr>"
  let ?s3 = "?s2\<lparr>world := 1, trace := [Clear_Waypoints ''joint_lift'',
      Add_Waypoint ''joint_lift'' 0 0 None None, Start_Trajectory]\<rparr>"
  have k: "check_positions ?goal (points ?goal) = Inr ()"
    by (simp add: empty_point_def)
  have m: "merge_arm_joints ?goal = Inr ?goal"
    by (simp add: merge_arm_joints_def arm_indexes_of_def arm_name_evals)
  have c: "check_names (joint_names ?goal) = Inr ()"
    by (simp add: check_names_def trajectory_components_def)
  have ig: "(ignore_trajectory_velocities ?s1 \<or> ignore_trajectory_accelerations ?s1) = False"
    by (simp add: initial_node_def)
  have w: "set_waypoints sample 0 (joint_names ?goal) (points ?goal) ?s1 = Inr ?s2"
    by (simp add: empty_point_def initial_node_def sample_def add_waypoints_def
        optional_def command_def emit_def)
  have st: "command sample Start_Trajectory (snd (now sample ?s2)) = ?s3"
    by (simp add: initial_node_def sample_def command_def emit_def now_def)
  have p: "playback_loop sample (joint_names ?goal) (fst (now sample ?s2)) ?s3
           = Some (Inl (AttributeError, ?s3\<lparr>world := 2\<rparr>))"
    by (subst playback_loop_raises)
       (simp_all add: initial_node_def sample_def now_def)
  have t: "try_trajectory sample ?goal ?s1 = Some (Inl (AttributeError, ?s3\<lparr>world := 2\<rparr>))"
    unfolding try_trajectory_def
    by (simp only: k m c ig w st p sum.case option.case Let_def if_False)
  have s1: "acquire_read (((initial_node (0::nat))\<lparr>robot_mode := Some ''manipulation''\<rparr>)
              \<lparr>goal_state := Goal_Executing, stop_the_robot := False\<rparr>) = ?s1"
    by (simp add: acquire_read_def initial_node_def)
  show ?thesis
    unfolding execute_cb_def execute_trajectory_def s1 Let_def t
    by (simp add: initial_node_def sample_def command_def emit_def release_read_def
        goal_abort_def is_follow_joint_trajectory_exception_def UNKNOWN_ERROR_def)
qed

section \<open>Properties of the position and navigation path\<close>








lemma poll_loop_reached:
  "list_all (\<lambda>b. b) reached \<Longrightarrow> poll_loop E names pt goal_start_time reached s = Some (Inr s)"
  by (subst poll_loop.simps) simp

lemma sample_run:
  "execute_position sample four_segment_goal
     ((initial_node 0)\<lparr>robot_mode := Some ''position'', stop_the_robot := b\<rparr>)
   = Some (Returned \<lparr>error_code = 0, error_string = Achieved_All_Target_Points\<rparr>
       ((initial_node 1)\<lparr>robot_mode := Some ''position'',
          action_result := \<lparr>error_code = 0, error_string = Achieved_All_Target_Points\<rparr>,
          goal_state := Goal_Succeeded,
          trace := map (\<lambda>c. Update c segment_names (Some ''position'')) command_groups
            @ map (\<lambda>c. Set_Goal c (empty_point\<lparr>positions := [1/10, 1/10, 1/10, 1/10]\<rparr>))
                command_groups
            @ [Get_Status] @ map Init_Execution command_groups
            @ [Push_Command, Goal_Succeed]\<rparr>))"
proof -
  let ?p = "empty_point\<lparr>positions := [1/10, 1/10, 1/10, 1/10]\<rparr>"
  let ?s1 = "(initial_node (0::nat))\<lparr>robot_mode := Some ''position'',
      goal_state := Goal_Executing, read_holds := 1\<rparr>"
  let ?t1 = "map (\<lambda>c. Update c segment_names (Some ''position'')) command_groups"
  let ?t2 = "?t1 @ map (\<lambda>c. Set_Goal c ?p) command_groups"
  let ?t3 = "?t1 @ map (\<lambda>c. Set_Goal c ?p) command_groups
               @ [Get_Status] @ map Init_Execution command_groups @ [Push_Command]"
  have s1: "acquire_read (((initial_node (0::nat))\<lparr>robot_mode := Some ''position'',
      stop_the_robot := b\<rparr>)\<lparr>goal_state := Goal_Executing, stop_the_robot := False\<rparr>) = ?s1"
    by (simp add: acquire_read_def initial_node_def)
  have u: "update_all sample command_groups segment_names ?s1
           = ([True, True, True, True, True, True, True], ?s1\<lparr>trace := ?t1\<rparr>)"
    by (simp add: command_groups_def sample_def initial_node_def emit_def Let_def)
  have n: "sum_list (map (\<lambda>c. cg_num_valid sample c (world (?s1\<lparr>trace := ?t1\<rparr>))) command_groups) = 4"
    by (simp add: command_groups_def sample_def)
  have l: "int (length segment_names) = 4" by (simp add: segment_names_def)
  have sg: "set_goal_all sample command_groups ?p (?s1\<lparr>trace := ?t1\<rparr>)
            = ([True, True, True, True, True, True, True], ?s1\<lparr>trace := ?t2\<rparr>)"
    by (simp add: command_groups_def sample_def initial_node_def emit_def Let_def)
  have s3: "command sample Push_Command (init_execution_all sample command_groups
                (get_status sample (?s1\<lparr>trace := ?t2\<rparr>))) = ?s1\<lparr>trace := ?t3\<rparr>"
    by (simp add: command_groups_def sample_def initial_node_def emit_def command_def
        get_status_def)
  have g: "list_all (\<lambda>b. b) (goals_reached sample (?s1\<lparr>trace := ?t3\<rparr>))"
    by (simp add: goals_reached_def command_groups_def sample_def)
  have n3: "snd (now sample (?s1\<lparr>trace := ?t3\<rparr>)) = ?s1\<lparr>trace := ?t3, world := 1\<rparr>"
    by (simp add: now_def sample_def initial_node_def)
  have ep: "execute_points sample segment_names [?p] (?s1\<lparr>trace := ?t1\<rparr>)
            = Some (Inr (?s1\<lparr>trace := ?t3, world := 1\<rparr>))"
    by (simp add: sg s3 poll_loop_reached[OF g] n3 Let_def del: append.simps map_append)
  show ?thesis
    unfolding execute_position_def s1 Let_def four_segment_goal_def trajectory.simps u
      fst_conv snd_conv n l ep
    by (simp add: return_result_def release_read_def success_callback_def goal_succeed_def
        emit_def initial_node_def SUCCESSFUL_def)
qed



subsection \<open>What the command groups are handed\<close>

lemma extends_refl: "trace s' = trace s \<Longrightarrow> extends names pts s s'"
  by (simp add: extends_def)

lemma extends_trans:
  "extends names pts s s' \<Longrightarrow> extends names pts s' s'' \<Longrightarrow> extends names pts s s''"
  by (auto simp: extends_def)

lemma extends_emit:
  "as_received names pts e \<Longrightarrow> trace s' = trace s \<Longrightarrow> extends names pts s (emit e s')"
  by (simp add: extends_def emit_def)

lemma extends_command: "\<not> (\<exists>c n m. e = Update c n m) \<Longrightarrow> \<not> (\<exists>c p. e = Set_Goal c p) \<Longrightarrow>
   extends names pts s (command E e s)"
  by (cases e) (simp_all add: extends_def command_def emit_def)

lemma trace_now [simp]: "trace (snd (now E s)) = trace s"
  by (simp add: now_def)

lemma trace_release_read [simp]: "trace (release_read s) = trace s"
  by (simp add: release_read_def)

lemma extends_get_status: "extends names pts s (get_status E s)"
  by (simp add: extends_def get_status_def emit_def)

lemma extends_goal_abort: "trace s' = trace s \<Longrightarrow> extends names pts s (goal_abort s')"
  by (simp add: extends_def goal_abort_def emit_def)

lemma extends_invalid_joints: "extends names pts s (invalid_joints_callback E m s)"
  by (simp add: invalid_joints_callback_def extends_goal_abort extends_refl)

lemma extends_invalid_goal: "extends names pts s (invalid_goal_callback E m s)"
  by (simp add: invalid_goal_callback_def extends_goal_abort extends_refl)

lemma extends_goal_tolerance: "extends names pts s (goal_tolerance_violated_callback E m s)"
  by (simp add: goal_tolerance_violated_callback_def extends_goal_abort extends_refl)

lemma extends_success: "extends names pts s (success_callback m s)"
  by (simp add: success_callback_def goal_succeed_def extends_def emit_def)

lemma extends_fold:
  assumes "\<And>m t. extends names pts t (f m t)"
  shows "extends names pts s (fold f ms s)"
proof (induction ms arbitrary: s)
  case Nil
  show ?case by (simp add: extends_refl)
next
  case (Cons m ms)
  show ?case using assms[of s m] Cons.IH[of "f m s"] by (auto intro: extends_trans)
qed

lemma extends_update_all:
  "extends names pts s (snd (update_all E cs names s))"
proof (induction cs arbitrary: s)
  case Nil
  show ?case by (simp add: extends_refl)
next
  case (Cons c cs)
  let ?r = "cg_update E c names (robot_mode s) (world s)"
  let ?s0 = "emit (Update c names (robot_mode s)) (s\<lparr>world := snd ?r\<rparr>)"
  let ?s1 = "fold (invalid_joints_callback E) (map Reported (snd (fst ?r))) ?s0"
  have a: "extends names pts s ?s0" by (simp add: extends_emit)
  have b: "extends names pts ?s0 ?s1" by (rule extends_fold) (rule extends_invalid_joints)
  have c: "extends names pts ?s1 (snd (update_all E cs names ?s1))" by (rule Cons.IH)
  show ?case using a b c by (auto simp: Let_def intro: extends_trans)
qed

lemma update_all_first:
  "\<exists>s1. trace s1 = trace s @ [Update c names (robot_mode s)]
       \<and> extends names pts s1 (snd (update_all E (c # cs) names s))"
proof -
  let ?r = "cg_update E c names (robot_mode s) (world s)"
  let ?s0 = "emit (Update c names (robot_mode s)) (s\<lparr>world := snd ?r\<rparr>)"
  let ?s1 = "fold (invalid_joints_callback E) (map Reported (snd (fst ?r))) ?s0"
  have a: "trace ?s0 = trace s @ [Update c names (robot_mode s)]" by (simp add: emit_def)
  have b: "extends names pts ?s0 ?s1" by (rule extends_fold) (rule extends_invalid_joints)
  have c: "extends names pts ?s1 (snd (update_all E cs names ?s1))" by (rule extends_update_all)
  have "extends names pts ?s0 (snd (update_all E (c # cs) names s))"
    using b c by (auto simp: Let_def intro: extends_trans)
  with a show ?thesis by blast
qed

lemma extends_set_goal_all:
  "pt \<in> set pts \<Longrightarrow> extends names pts s (snd (set_goal_all E cs pt s))"
proof (induction cs arbitrary: s)
  case Nil
  show ?case by (simp add: extends_refl)
next
  case (Cons c cs)
  let ?r = "cg_set_goal E c pt (fail_out_of_range_goal s) (world s)"
  let ?s0 = "emit (Set_Goal c pt) (s\<lparr>world := snd ?r\<rparr>)"
  let ?s1 = "fold (invalid_goal_callback E) (map Reported (snd (fst ?r))) ?s0"
  have a: "extends names pts s ?s0" using Cons.prems by (simp add: extends_emit)
  have b: "extends names pts ?s0 ?s1" by (rule extends_fold) (rule extends_invalid_goal)
  have c: "extends names pts ?s1 (snd (set_goal_all E cs pt ?s1))" by (rule Cons.IH[OF Cons.prems])
  show ?case using a b c by (auto simp: Let_def intro: extends_trans)
qed

lemma extends_init_execution_all:
  "extends names pts s (init_execution_all E cs s)"
proof (induction cs arbitrary: s)
  case Nil
  show ?case by (simp add: extends_refl)
next
  case (Cons c cs)
  let ?s0 = "emit (Init_Execution c) (s\<lparr>world := cg_init_execution E c (world s)\<rparr>)"
  have a: "extends names pts s ?s0" by (simp add: extends_emit)
  show ?case using a Cons.IH[of ?s0] by (auto intro: extends_trans)
qed

lemma extends_update_execution_all:
  "extends names pts s (snd (update_execution_all E cs s))"
proof (induction cs arbitrary: s)
  case Nil
  show ?case by (simp add: extends_refl)
next
  case (Cons c cs)
  let ?r = "cg_update_execution E c (world s)"
  let ?s0 = "emit (Update_Execution c) (s\<lparr>world := snd ?r\<rparr>)"
  let ?s1 = "fold success_callback (map Reported (snd (fst ?r))) ?s0"
  have a: "extends names pts s ?s0" by (simp add: extends_emit)
  have b: "extends names pts ?s0 ?s1" by (rule extends_fold) (rule extends_success)
  have c: "extends names pts ?s1 (snd (update_execution_all E cs ?s1))" by (rule Cons.IH)
  show ?case using a b c by (auto simp: Let_def intro: extends_trans)
qed

lemma extends_fold_command:
  "list_all (\<lambda>e. \<not> (\<exists>c n m. e = Update c n m) \<and> \<not> (\<exists>c p. e = Set_Goal c p)) es \<Longrightarrow>
   extends names pts s (fold (command E) es s)"
proof (induction es arbitrary: s)
  case Nil
  show ?case by (simp add: extends_refl)
next
  case (Cons e es)
  have a: "extends names pts s (command E e s)" using Cons.prems by (simp add: extends_command)
  have b: "extends names pts (command E e s) (fold (command E) es (command E e s))"
    using Cons.prems by (intro Cons.IH) simp
  show ?case using a b by (auto intro: extends_trans)
qed

lemma extends_stop_callback: "extends names pts s (stop_the_robot_callback E s)"
proof -
  have "extends names pts (s\<lparr>stop_the_robot := True\<rparr>) (stop_the_robot_callback E s)"
    unfolding stop_the_robot_callback_def by (rule extends_fold_command) simp
  then show ?thesis by (simp add: extends_def)
qed

lemma extends_spin_once: "extends names pts s (spin_once E s)"
proof -
  let ?s1 = "emit Spin_Once (s\<lparr>world := snd (spin E (world s))\<rparr>)"
  have a: "extends names pts s ?s1" by (simp add: extends_emit)
  have b: "extends names pts ?s1 (stop_the_robot_callback E ?s1)" by (rule extends_stop_callback)
  show ?thesis using a b by (auto simp: spin_once_def Let_def intro: extends_trans)
qed

lemma extends_feedback:
  "feedback_callback E ns pt rets s = Inr s' \<Longrightarrow> extends names pts s s'"
  by (auto simp: feedback_callback_def extends_emit split: sum.splits)

lemma poll_body_cases:
  obtains
    (timeout) "poll_body E ns pt start s = Leave (return_result (release_read
        (goal_tolerance_violated_callback E (Goal_Timeout_Exceeded pt) (snd (now E s)))))"
  | (preempt) "poll_body E ns pt start s = Leave (return_result (release_read
        ((set_preempted (snd (now E s)))\<lparr>stop_the_robot := False\<rparr>)))"
  | (ended) "poll_body E ns pt start s = Leave (return_result (release_read
        (snd (update_execution_all E command_groups (get_status E (snd (now E s)))))))"
  | (raised) x where "poll_body E ns pt start s = Leave (Raised x
        (snd (update_execution_all E command_groups (get_status E (snd (now E s))))))"
  | (again) s3 where "feedback_callback E ns pt
        (fst (update_execution_all E command_groups (get_status E (snd (now E s)))))
        (snd (update_execution_all E command_groups (get_status E (snd (now E s))))) = Inr s3"
      "poll_body E ns pt start s = Again (goals_reached E s3) (spin_once E s3)"
proof -
  let ?r = "update_execution_all E command_groups (get_status E (snd (now E s)))"
  consider (a) "fst (now E s) - start > default_goal_timeout_duration"
    | (b) "\<not> fst (now E s) - start > default_goal_timeout_duration"
          "stop_the_robot (snd (now E s)) \<or> is_cancel_requested E (snd (now E s))"
    | (c) "\<not> fst (now E s) - start > default_goal_timeout_duration"
          "\<not> (stop_the_robot (snd (now E s)) \<or> is_cancel_requested E (snd (now E s)))"
          "list_ex (\<lambda>ret. ret = Ret_True) (fst ?r)"
    | (d) "\<not> fst (now E s) - start > default_goal_timeout_duration"
          "\<not> (stop_the_robot (snd (now E s)) \<or> is_cancel_requested E (snd (now E s)))"
          "\<not> list_ex (\<lambda>ret. ret = Ret_True) (fst ?r)"
    by blast
  then show thesis
  proof cases
    case a
    then have "poll_body E ns pt start s = Leave (return_result (release_read
        (goal_tolerance_violated_callback E (Goal_Timeout_Exceeded pt) (snd (now E s)))))"
      unfolding poll_body_def Let_def by (simp only: if_True)
    then show thesis by (rule timeout)
  next
    case b
    then have "poll_body E ns pt start s = Leave (return_result (release_read
        ((set_preempted (snd (now E s)))\<lparr>stop_the_robot := False\<rparr>)))"
      unfolding poll_body_def Let_def by (simp only: if_True if_False)
    then show thesis by (rule preempt)
  next
    case c
    then have "poll_body E ns pt start s = Leave (return_result (release_read (snd ?r)))"
      unfolding poll_body_def Let_def by (simp only: if_True if_False)
    then show thesis by (rule ended)
  next
    case d
    then have pb: "poll_body E ns pt start s
        = (case feedback_callback E ns pt (fst ?r) (snd ?r) of
             Inl x \<Rightarrow> Leave (Raised x (snd ?r))
           | Inr s3 \<Rightarrow> Again (goals_reached E s3) (spin_once E s3))"
      unfolding poll_body_def Let_def by (simp only: if_True if_False)
    show thesis
    proof (cases "feedback_callback E ns pt (fst ?r) (snd ?r)")
      case (Inl x)
      with pb have "poll_body E ns pt start s = Leave (Raised x (snd ?r))" by simp
      then show thesis by (rule raised)
    next
      case (Inr s3)
      with pb have "poll_body E ns pt start s = Again (goals_reached E s3) (spin_once E s3)"
        by simp
      with Inr show thesis by (rule again)
    qed
  qed
qed

lemma extends_update_execution_step:
  "extends names pts s
     (snd (update_execution_all E command_groups (get_status E (snd (now E s)))))"
proof -
  have s1: "extends names pts s (snd (now E s))" by (simp add: extends_refl)
  have s2: "extends names pts (snd (now E s)) (get_status E (snd (now E s)))"
    by (rule extends_get_status)
  have s3: "extends names pts (get_status E (snd (now E s)))
     (snd (update_execution_all E command_groups (get_status E (snd (now E s)))))"
    by (rule extends_update_execution_all)
  show ?thesis using s1 s2 s3 by (blast intro: extends_trans)
qed

lemma extends_release_read:
  "extends names pts s s' \<Longrightarrow> extends names pts s (release_read s')"
  by (simp add: extends_def)

lemma extends_poll_body_leave:
  assumes "poll_body E ns pt start s = Leave out"
  shows "extends names pts s (final out)"
proof (cases rule: poll_body_cases[of E ns pt start s])
  case timeout
  have "extends names pts (snd (now E s))
          (goal_tolerance_violated_callback E (Goal_Timeout_Exceeded pt) (snd (now E s)))"
    by (rule extends_goal_tolerance)
  then have "extends names pts s
          (goal_tolerance_violated_callback E (Goal_Timeout_Exceeded pt) (snd (now E s)))"
    by (simp add: extends_def)
  then have "extends names pts s (release_read
          (goal_tolerance_violated_callback E (Goal_Timeout_Exceeded pt) (snd (now E s))))"
    by (rule extends_release_read)
  with timeout assms show ?thesis by (simp add: return_result_def)
next
  case preempt
  have "extends names pts s (release_read ((set_preempted (snd (now E s)))\<lparr>stop_the_robot := False\<rparr>))"
    by (simp add: extends_def set_preempted_def emit_def)
  with preempt assms show ?thesis by (simp add: return_result_def)
next
  case ended
  have "extends names pts s (release_read
        (snd (update_execution_all E command_groups (get_status E (snd (now E s))))))"
    by (rule extends_release_read) (rule extends_update_execution_step)
  with ended assms show ?thesis by (simp add: return_result_def)
next
  case (raised x)
  with assms have "out = Raised x
        (snd (update_execution_all E command_groups (get_status E (snd (now E s)))))" by simp
  then show ?thesis using extends_update_execution_step[of names pts s E] by simp
next
  case (again s3)
  with assms show ?thesis by simp
qed

lemma extends_poll_body_again:
  assumes "poll_body E ns pt start s = Again reached s'"
  shows "extends names pts s s'"
proof (cases rule: poll_body_cases[of E ns pt start s])
  case timeout
  with assms show ?thesis by simp
next
  case preempt
  with assms show ?thesis by simp
next
  case ended
  with assms show ?thesis by simp
next
  case (raised x)
  with assms show ?thesis by simp
next
  case (again s3)
  have a: "extends names pts s
     (snd (update_execution_all E command_groups (get_status E (snd (now E s)))))"
    by (rule extends_update_execution_step)
  have b: "extends names pts
     (snd (update_execution_all E command_groups (get_status E (snd (now E s))))) s3"
    using again(1) by (rule extends_feedback)
  have c: "extends names pts s3 (spin_once E s3)" by (rule extends_spin_once)
  have "s' = spin_once E s3" using again(2) assms by simp
  then show ?thesis using a b c by (blast intro: extends_trans)
qed

lemma extends_poll_loop:
  assumes "poll_loop E ns pt start reached s = Some y"
  shows "extends names pts s (case y of Inl out \<Rightarrow> final out | Inr s' \<Rightarrow> s')"
proof (rule poll_loop.raw_induct[where P="\<lambda>E ns pt start reached s y.
         extends names pts s (case y of Inl out \<Rightarrow> final out | Inr s' \<Rightarrow> s')", OF _ assms])
  fix loop :: "'a collaborators \<Rightarrow> string list \<Rightarrow> point \<Rightarrow> int \<Rightarrow> bool list \<Rightarrow> 'a node
     \<Rightarrow> ('a node outcome + 'a node) option"
  fix E ns pt start reached s y
  assume IH: "\<And>E ns pt start reached s y. loop E ns pt start reached s = Some y \<Longrightarrow>
     extends names pts s (case y of Inl out \<Rightarrow> final out | Inr s' \<Rightarrow> s')"
  assume step: "(if list_all (\<lambda>b. b) reached then Some (Inr s)
      else case poll_body E ns pt start s of
           Leave out \<Rightarrow> Some (Inl out)
           | Again reached' s' \<Rightarrow> loop E ns pt start reached' s') = Some y"
  show "extends names pts s (case y of Inl out \<Rightarrow> final out | Inr s' \<Rightarrow> s')"
  proof (cases "list_all (\<lambda>b. b) reached")
    case True
    with step show ?thesis by (auto simp: extends_refl)
  next
    case False
    show ?thesis
    proof (cases "poll_body E ns pt start s")
      case (Leave out)
      with False step have "y = Inl out" by simp
      then show ?thesis using extends_poll_body_leave[OF Leave] by simp
    next
      case (Again reached' s')
      with False step have "loop E ns pt start reached' s' = Some y" by simp
      then have "extends names pts s' (case y of Inl out \<Rightarrow> final out | Inr s' \<Rightarrow> s')"
        by (rule IH)
      then show ?thesis using extends_poll_body_again[OF Again] by (blast intro: extends_trans)
    qed
  qed
qed

lemma extends_execute_points:
  "set ps \<subseteq> set pts \<Longrightarrow> execute_points E ns ps s = Some y \<Longrightarrow>
   extends names pts s (case y of Inl out \<Rightarrow> final out | Inr s' \<Rightarrow> s')"
proof (induction ps arbitrary: s)
  case Nil
  then show ?case by (auto simp: extends_refl)
next
  case (Cons pt ps)
  let ?v = "set_goal_all E command_groups pt s"
  let ?s1 = "get_status E (snd ?v)"
  let ?s2 = "init_execution_all E command_groups ?s1"
  let ?s3 = "command E Push_Command ?s2"
  let ?s4 = "snd (now E ?s3)"
  have v: "extends names pts s (snd ?v)" using Cons.prems(1) by (simp add: extends_set_goal_all)
  have s1: "extends names pts s ?s1" using v extends_get_status by (blast intro: extends_trans)
  have s2: "extends names pts s ?s2" using s1 extends_init_execution_all by (blast intro: extends_trans)
  have s3: "extends names pts s ?s3"
    using s2 extends_command[of Push_Command names pts ?s2 E] by (auto intro: extends_trans)
  have s4: "extends names pts s ?s4" using s3 by (simp add: extends_def)
  show ?case
  proof (cases "list_all (\<lambda>b. b) (fst ?v)")
    case False
    with Cons.prems(2) have "y = Inl (return_result (release_read (snd ?v)))" by (simp add: Let_def)
    then show ?thesis using v by (simp add: return_result_def extends_def)
  next
    case True
    show ?thesis
    proof (cases "poll_loop E ns pt (fst (now E ?s3)) (goals_reached E ?s3) ?s4")
      case None
      with True Cons.prems(2) show ?thesis by (simp add: Let_def)
    next
      case (Some z)
      note pl = extends_poll_loop[OF Some, of names pts]
      show ?thesis
      proof (cases z)
        case (Inl out)
        with True Some Cons.prems(2) have "y = Inl out" by (simp add: Let_def)
        then show ?thesis using pl Inl s4 by (auto intro: extends_trans)
      next
        case (Inr s5)
        with True Some Cons.prems(2) have ep: "execute_points E ns ps s5 = Some y" by (simp add: Let_def)
        have "set ps \<subseteq> set pts" using Cons.prems(1) by simp
        then have "extends names pts s5 (case y of Inl out \<Rightarrow> final out | Inr s' \<Rightarrow> s')"
          using ep by (rule Cons.IH)
        moreover have "extends names pts s s5" using pl Inr s4 by (auto intro: extends_trans)
        ultimately show ?thesis by (blast intro: extends_trans)
      qed
    qed
  qed
qed

text \<open>
  Claim C2, as amended.  On the position and navigation path the arm joints are not
  merged: when \<^verbatim>\<open>execute_cb\<close> ends in a mode other than manipulation, the first call
  it made is \<^verbatim>\<open>update\<close> of the telescoping group with the joint names of the goal
  as they were received, and every later \<^verbatim>\<open>update\<close> carries the same names and
  every \<^verbatim>\<open>set_goal\<close> a point of the goal as received.  A goal that names the four
  segment joints therefore reaches the command groups with its four names and four
  positions; \<open>merge_arm_joints\<close> is run on the manipulation path only.
\<close>

theorem position_path_names_as_received:
  assumes "robot_mode s \<noteq> Some ''manipulation''" and "execute_cb E goal s = Some out"
  shows "\<exists>rest. trace (final out)
           = trace s @ Update Telescoping (joint_names goal) (robot_mode s) # rest
         \<and> list_all (as_received (joint_names goal) (points goal)) rest"
proof -
  let ?names = "joint_names goal"
  let ?pts = "points goal"
  let ?s1 = "acquire_read (s\<lparr>goal_state := Goal_Executing, stop_the_robot := False\<rparr>)"
  let ?u = "update_all E command_groups ?names ?s1"
  let ?n = "sum_list (map (\<lambda>c. cg_num_valid E c (world (snd ?u))) command_groups)"
  have ex: "execute_position E goal s = Some out" using assms by (simp add: execute_cb_def)
  have m: "robot_mode ?s1 = robot_mode s" and t: "trace ?s1 = trace s"
    by (simp_all add: acquire_read_def)
  have cg: "command_groups = Telescoping # tl command_groups"
    by (simp add: command_groups_def)
  obtain s0 where s0: "trace s0 = trace ?s1 @ [Update Telescoping ?names (robot_mode ?s1)]"
    and u0: "extends ?names ?pts s0 (snd (update_all E (Telescoping # tl command_groups) ?names ?s1))"
    using update_all_first[of ?s1 Telescoping ?names ?pts E "tl command_groups"] by blast
  have u: "extends ?names ?pts s0 (snd ?u)" using u0 cg by simp
  have fin: "extends ?names ?pts (snd ?u) (final out)"
  proof (cases "list_all (\<lambda>b. b) (fst ?u)")
    case False
    then have "execute_position E goal s = Some (return_result (release_read (snd ?u)))"
      unfolding execute_position_def Let_def by (simp only: not_not if_True simp_thms)
    with ex have "out = return_result (release_read (snd ?u))" by simp
    then show ?thesis by (simp add: return_result_def extends_def)
  next
    case ok: True
    show ?thesis
    proof (cases "?n \<le> 0")
      case True
      with ok have "execute_position E goal s = Some (return_result (release_read
          (invalid_joints_callback E (No_Valid_Joint_Names ?names) (snd ?u))))"
        unfolding execute_position_def Let_def by (simp only: simp_thms if_True if_False)
      with ex have "out = return_result (release_read
          (invalid_joints_callback E (No_Valid_Joint_Names ?names) (snd ?u)))" by simp
      then show ?thesis
        using extends_invalid_joints[of ?names ?pts "snd ?u" E "No_Valid_Joint_Names ?names"]
        by (simp add: return_result_def extends_def)
    next
      case pos: False
      show ?thesis
      proof (cases "?n \<noteq> int (length ?names)")
        case True
        with ok pos have "execute_position E goal s = Some (return_result (release_read
            (invalid_joints_callback E (Only_Valid_Joints ?n (length ?names) ?names) (snd ?u))))"
          unfolding execute_position_def Let_def by (simp only: simp_thms if_True if_False)
        with ex have "out = return_result (release_read
            (invalid_joints_callback E (Only_Valid_Joints ?n (length ?names) ?names) (snd ?u)))"
          by simp
        then show ?thesis
          using extends_invalid_joints[of ?names ?pts "snd ?u" E
              "Only_Valid_Joints ?n (length ?names) ?names"]
          by (simp add: return_result_def extends_def)
      next
        case eq: False
        from ok pos eq have e2: "execute_position E goal s
            = (case execute_points E ?names ?pts (snd ?u) of
                 None \<Rightarrow> None
               | Some (Inl out) \<Rightarrow> Some out
               | Some (Inr s3) \<Rightarrow> Some (return_result (release_read
                   (success_callback Achieved_All_Target_Points s3))))"
          unfolding execute_position_def Let_def
          by (simp only: simp_thms if_True if_False)
        show ?thesis
        proof (cases "execute_points E ?names ?pts (snd ?u)")
          case None
          with e2 ex show ?thesis by simp
        next
          case (Some y)
          note ep = extends_execute_points[OF subset_refl Some, of ?names]
          show ?thesis
          proof (cases y)
            case (Inl o1)
            with Some e2 ex have "out = o1" by simp
            then show ?thesis using ep Inl by simp
          next
            case (Inr s3)
            with Some e2 ex
            have "out = return_result (release_read (success_callback Achieved_All_Target_Points s3))"
              by simp
            moreover have "extends ?names ?pts (snd ?u) s3" using ep Inr by simp
            ultimately show ?thesis
              using extends_success[of ?names ?pts s3 Achieved_All_Target_Points]
              by (auto simp: return_result_def extends_def)
          qed
        qed
      qed
    qed
  qed
  from u fin have "extends ?names ?pts s0 (final out)" by (rule extends_trans)
  then obtain evs where "trace (final out) = trace s0 @ evs"
    and "list_all (as_received ?names ?pts) evs"
    unfolding extends_def by blast
  then show ?thesis using s0 m t by simp
qed

theorem position_path_names_as_received_witness:
  "robot_mode ((initial_node (0::nat))\<lparr>robot_mode := Some ''position''\<rparr>) \<noteq> Some ''manipulation''
   \<and> (\<exists>out rest.
        execute_cb sample four_segment_goal ((initial_node 0)\<lparr>robot_mode := Some ''position''\<rparr>)
          = Some out
      \<and> trace (final out) = Update Telescoping segment_names (Some ''position'') # rest
      \<and> list_all (as_received segment_names (points four_segment_goal)) rest)"
proof -
  let ?s = "(initial_node (0::nat))\<lparr>robot_mode := Some ''position''\<rparr>"
  have h1: "robot_mode ?s \<noteq> Some ''manipulation''" by simp
  have e: "?s = (initial_node 0)\<lparr>robot_mode := Some ''position'', stop_the_robot := False\<rparr>"
    by (simp add: initial_node_def)
  have "execute_cb sample four_segment_goal ?s = execute_position sample four_segment_goal ?s"
    by (simp add: execute_cb_def)
  also have "\<dots> \<noteq> None" by (subst e) (simp add: sample_run)
  finally obtain out where h2: "execute_cb sample four_segment_goal ?s = Some out" by blast
  have n: "joint_names four_segment_goal = segment_names" by (simp add: four_segment_goal_def)
  have t: "trace ?s = []" by (simp add: initial_node_def)
  have m: "robot_mode ?s = Some ''position''" by simp
  from position_path_names_as_received[OF h1 h2]
  obtain rest where "trace (final out) = Update Telescoping segment_names (Some ''position'') # rest"
    and "list_all (as_received segment_names (points four_segment_goal)) rest"
    unfolding n t m by auto
  with h1 h2 show ?thesis by blast
qed

theorem position_path_merge_counterexample:
  "execute_cb sample four_segment_goal ((initial_node 0)\<lparr>robot_mode := Some ''position''\<rparr>)
   = Some (Returned \<lparr>error_code = 0, error_string = Achieved_All_Target_Points\<rparr>
       ((initial_node 1)\<lparr>robot_mode := Some ''position'',
          action_result := \<lparr>error_code = 0, error_string = Achieved_All_Target_Points\<rparr>,
          goal_state := Goal_Succeeded,
          trace := map (\<lambda>c. Update c segment_names (Some ''position'')) command_groups
            @ map (\<lambda>c. Set_Goal c (empty_point\<lparr>positions := [1/10, 1/10, 1/10, 1/10]\<rparr>))
                command_groups
            @ [Get_Status] @ map Init_Execution command_groups
            @ [Push_Command, Goal_Succeed]\<rparr>))
   \<and> joint_names four_segment_goal = segment_names
   \<and> segment_names \<noteq> [''wrist_extension'']
   \<and> merge_arm_joints four_segment_goal
       = Inr \<lparr>frame_id = [], joint_names = [''wrist_extension''],
              points = [empty_point\<lparr>positions := [4/10]\<rparr>]\<rparr>"
proof -
  let ?s = "(initial_node (0::nat))\<lparr>robot_mode := Some ''position''\<rparr>"
  have e: "?s = (initial_node 0)\<lparr>robot_mode := Some ''position'', stop_the_robot := False\<rparr>"
    by (simp add: initial_node_def)
  have x: "execute_cb sample four_segment_goal ?s = execute_position sample four_segment_goal ?s"
    by (simp add: execute_cb_def)
  have r: "execute_position sample four_segment_goal ?s
   = Some (Returned \<lparr>error_code = 0, error_string = Achieved_All_Target_Points\<rparr>
       ((initial_node 1)\<lparr>robot_mode := Some ''position'',
          action_result := \<lparr>error_code = 0, error_string = Achieved_All_Target_Points\<rparr>,
          goal_state := Goal_Succeeded,
          trace := map (\<lambda>c. Update c segment_names (Some ''position'')) command_groups
            @ map (\<lambda>c. Set_Goal c (empty_point\<lparr>positions := [1/10, 1/10, 1/10, 1/10]\<rparr>))
                command_groups
            @ [Get_Status] @ map Init_Execution command_groups
            @ [Push_Command, Goal_Succeed]\<rparr>))"
    by (subst e) (rule sample_run)
  have n: "joint_names four_segment_goal = segment_names" by (simp add: four_segment_goal_def)
  have d: "segment_names \<noteq> [''wrist_extension'']" by (simp add: segment_names_def)
  have mg: "merge_arm_joints four_segment_goal
       = Inr \<lparr>frame_id = [], joint_names = [''wrist_extension''],
              points = [empty_point\<lparr>positions := [4/10]\<rparr>]\<rparr>"
    by (simp add: four_segment_goal_def merge_arm_joints_def segment_names_def
        arm_indexes_of_def arm_name_evals upt4
        gather_def gather_value_def supplied_def init_acc_def empty_point_def kept_names_def
        add_arm_values_def mean_of_def Let_def)
  show ?thesis unfolding x r using n d mg by simp
qed

subsection \<open>The read lock on the two execution paths\<close>

text \<open>
  Whenever \<^verbatim>\<open>execute_cb\<close> returns, on either path, the number of read holds is
  what it was before the call (\<open>execute_cb_balanced\<close>); on the manipulation path it
  always returns when it ends (\<open>execute_trajectory_balanced\<close>).
\<close>

lemma goal_abort_read_holds [simp]: "read_holds (goal_abort s) = read_holds s"
  by (simp add: goal_abort_def)

lemma goal_succeed_read_holds [simp]: "read_holds (goal_succeed s) = read_holds s"
  by (simp add: goal_succeed_def)

lemma add_each_waypoint_read_holds:
  "add_each_waypoint E name wps index s = r \<Longrightarrow>
   read_holds (case r of Inl x \<Rightarrow> snd x | Inr s' \<Rightarrow> s') = read_holds s"
  by (induction wps arbitrary: s) (auto split: if_splits)

lemma add_waypoints_read_holds:
  "read_holds (case add_waypoints E name wps index s of Inl x \<Rightarrow> snd x | Inr s' \<Rightarrow> s')
   = read_holds s"
proof -
  have "read_holds (case add_each_waypoint E name wps index (command E (Clear_Waypoints name) s)
          of Inl x \<Rightarrow> snd x | Inr s' \<Rightarrow> s') = read_holds s"
    using add_each_waypoint_read_holds[OF refl, of E name wps index "command E (Clear_Waypoints name) s"]
    by simp
  then show ?thesis by (auto simp: add_waypoints_def split: sum.splits)
qed

lemma set_waypoints_read_holds:
  "read_holds (case set_waypoints E index names pts s of Inl x \<Rightarrow> snd x | Inr s' \<Rightarrow> s')
   = read_holds s"
proof (induction E index names pts s rule: set_waypoints.induct)
  case (1 E index pts s)
  show ?case by simp
next
  case (2 E index name rest s)
  show ?case by simp
next
  case (3 E index name rest p0 later s)
  show ?case
  proof (cases "index < length (positions p0)")
    case False
    then show ?thesis by simp
  next
    case True
    let ?p1 = "p0\<lparr>positions := (positions p0)[index := component_position E name (world s)]\<rparr>"
    let ?p2 = "if index < length (velocities ?p1)
               then ?p1\<lparr>velocities := (velocities ?p1)[index := component_velocity E name (world s)]\<rparr>
               else ?p1"
    note aw = add_waypoints_read_holds[of E name "?p2 # later" index s]
    show ?thesis
    proof (cases "add_waypoints E name (?p2 # later) index s")
      case (Inl x)
      with True aw show ?thesis by (simp add: Let_def)
    next
      case (Inr s1)
      with True aw "3.IH"[OF True refl refl Inr] show ?thesis by (simp add: Let_def)
    qed
  qed
qed

lemma playback_body_read_holds:
  "read_holds (case playback_body E names start s of Inl x \<Rightarrow> snd x | Inr s' \<Rightarrow> s')
   = read_holds s"
  by (simp add: playback_body_def Let_def split: sum.splits)

lemma playback_loop_read_holds:
  assumes "playback_loop E names start s = Some y"
  shows "read_holds (case y of Inl x \<Rightarrow> snd x | Inr s' \<Rightarrow> s') = read_holds s"
proof (rule playback_loop.raw_induct[where P="\<lambda>E names start s y.
         read_holds (case y of Inl x \<Rightarrow> snd x | Inr s' \<Rightarrow> s') = read_holds s", OF _ assms])
  fix loop :: "'a collaborators \<Rightarrow> string list \<Rightarrow> int \<Rightarrow> 'a node
     \<Rightarrow> (py_error \<times> 'a node + 'a node) option"
  fix E names start s y
  assume IH: "\<And>E names start s y. loop E names start s = Some y \<Longrightarrow>
     read_holds (case y of Inl x \<Rightarrow> snd x | Inr s' \<Rightarrow> s') = read_holds s"
  assume step: "(if rclpy_ok E (world s) \<and> fst (is_trajectory_executing E (world s))
      then (case playback_body E names start
                   (s\<lparr>world := snd (is_trajectory_executing E (world s))\<rparr>) of
              Inl x \<Rightarrow> Some (Inl x)
            | Inr s1 \<Rightarrow> loop E names start s1)
      else Some (Inr (if rclpy_ok E (world s)
                      then s\<lparr>world := snd (is_trajectory_executing E (world s))\<rparr>
                      else s))) = Some y"
  let ?s0 = "s\<lparr>world := snd (is_trajectory_executing E (world s))\<rparr>"
  show "read_holds (case y of Inl x \<Rightarrow> snd x | Inr s' \<Rightarrow> s') = read_holds s"
  proof (cases "rclpy_ok E (world s) \<and> fst (is_trajectory_executing E (world s))")
    case False
    with step show ?thesis by auto
  next
    case True
    note pb = playback_body_read_holds[of E names start ?s0]
    show ?thesis
    proof (cases "playback_body E names start ?s0")
      case (Inl x)
      with True step have "y = Inl x" by simp
      with pb Inl show ?thesis by simp
    next
      case (Inr s1)
      with True step have "loop E names start s1 = Some y" by simp
      then have "read_holds (case y of Inl x \<Rightarrow> snd x | Inr s' \<Rightarrow> s') = read_holds s1"
        by (rule IH)
      with pb Inr show ?thesis by simp
    qed
  qed
qed

lemma try_trajectory_read_holds:
  assumes "try_trajectory E goal s = Some y"
  shows "read_holds (case y of Inl x \<Rightarrow> snd x | Inr s' \<Rightarrow> s') = read_holds s"
proof (cases "check_positions goal (points goal)")
  case (Inl x)
  with assms show ?thesis by (auto simp: try_trajectory_def)
next
  case cp: (Inr u)
  show ?thesis
  proof (cases "merge_arm_joints goal")
    case (Inl x)
    with cp assms show ?thesis by (auto simp: try_trajectory_def)
  next
    case mg: (Inr merged)
    show ?thesis
    proof (cases "check_names (joint_names merged)")
      case (Inl x)
      with cp mg assms show ?thesis by (auto simp: try_trajectory_def)
    next
      case cn: (Inr u')
      let ?pts = "if ignore_trajectory_velocities s \<or> ignore_trajectory_accelerations s
                 then map (ignore_values s) (points merged) else points merged"
      note sw = set_waypoints_read_holds[of E 0 "joint_names merged" ?pts s]
      show ?thesis
      proof (cases "set_waypoints E 0 (joint_names merged) ?pts s")
        case (Inl x)
        with cp mg cn assms have "y = Inl x" by (simp add: try_trajectory_def Let_def)
        with sw Inl show ?thesis by simp
      next
        case s1: (Inr s1)
        let ?s2 = "command E Start_Trajectory (snd (now E s1))"
        have r2: "read_holds ?s2 = read_holds s" using sw s1 by simp
        show ?thesis
        proof (cases "playback_loop E (joint_names merged) (fst (now E s1)) ?s2")
          case None
          with cp mg cn s1 assms show ?thesis by (simp add: try_trajectory_def Let_def)
        next
          case (Some z)
          note pl = playback_loop_read_holds[OF Some]
          show ?thesis
          proof (cases z)
            case (Inl x)
            with cp mg cn s1 Some assms have "y = Inl x" by (simp add: try_trajectory_def Let_def)
            with pl Inl r2 show ?thesis by simp
          next
            case (Inr s3)
            with cp mg cn s1 Some assms
            have "y = Inr (goal_succeed (command E Stop_Trajectory s3))"
              by (simp add: try_trajectory_def Let_def)
            with pl Inr r2 show ?thesis by simp
          qed
        qed
      qed
    qed
  qed
qed

lemma execute_trajectory_balanced:
  assumes "execute_trajectory E goal s = Some out"
  shows "\<exists>r s'. out = Returned r s' \<and> read_holds s' = read_holds s"
proof -
  let ?s1 = "acquire_read (s\<lparr>goal_state := Goal_Executing, stop_the_robot := False\<rparr>)"
  have r1: "read_holds ?s1 = read_holds s + 1" by (simp add: acquire_read_def)
  show ?thesis
  proof (cases "try_trajectory E goal ?s1")
    case None
    with assms show ?thesis by (simp add: execute_trajectory_def Let_def)
  next
    case (Some y)
    note tt = try_trajectory_read_holds[OF Some]
    show ?thesis
    proof (cases y)
      case (Inr s2)
      with Some assms tt r1 show ?thesis
        by (auto simp: execute_trajectory_def Let_def release_read_def)
    next
      case (Inl x)
      with Some assms tt r1 show ?thesis
        by (auto simp: execute_trajectory_def Let_def release_read_def split: if_splits)
    qed
  qed
qed

lemma fold_read_holds:
  assumes "\<And>m t. read_holds (f m t) = read_holds t"
  shows "read_holds (fold f ms s) = read_holds s"
  by (induction ms arbitrary: s) (simp_all add: assms)

lemma callbacks_read_holds [simp]:
  "read_holds (invalid_joints_callback E m s) = read_holds s"
  "read_holds (invalid_goal_callback E m s) = read_holds s"
  "read_holds (goal_tolerance_violated_callback E m s) = read_holds s"
  "read_holds (success_callback m s) = read_holds s"
  by (simp_all add: invalid_joints_callback_def invalid_goal_callback_def
      goal_tolerance_violated_callback_def success_callback_def)

lemma update_all_read_holds [simp]:
  "read_holds (snd (update_all E cs names s)) = read_holds s"
  by (induction cs arbitrary: s) (simp_all add: Let_def fold_read_holds)

lemma set_goal_all_read_holds [simp]:
  "read_holds (snd (set_goal_all E cs pt s)) = read_holds s"
  by (induction cs arbitrary: s) (simp_all add: Let_def fold_read_holds)

lemma init_execution_all_read_holds [simp]:
  "read_holds (init_execution_all E cs s) = read_holds s"
  by (induction cs arbitrary: s) simp_all

lemma update_execution_all_read_holds [simp]:
  "read_holds (snd (update_execution_all E cs s)) = read_holds s"
  by (induction cs arbitrary: s) (simp_all add: Let_def fold_read_holds)

lemma spin_once_read_holds [simp]: "read_holds (spin_once E s) = read_holds s"
  by (simp add: spin_once_def stop_the_robot_callback_def Let_def)

lemma feedback_callback_read_holds:
  "feedback_callback E ns pt rets s = Inr s' \<Longrightarrow> read_holds s' = read_holds s"
  by (auto simp: feedback_callback_def split: sum.splits)

text \<open>
  The read holds after a step that began in \<open>s\<close>: one less when the function has
  returned, unchanged when an exception has left it or when it goes on.
\<close>

lemma poll_body_read_holds:
  "case poll_body E ns pt start s of
     Leave (Returned r s') \<Rightarrow> read_holds s' = read_holds s - 1
   | Leave (Raised x s') \<Rightarrow> read_holds s' = read_holds s
   | Again reached s' \<Rightarrow> read_holds s' = read_holds s"
proof (cases rule: poll_body_cases[of E ns pt start s])
  case timeout
  then show ?thesis by (simp add: return_result_def release_read_def)
next
  case preempt
  then show ?thesis by (simp add: return_result_def release_read_def set_preempted_def)
next
  case ended
  then show ?thesis by (simp add: return_result_def release_read_def)
next
  case (raised x)
  then show ?thesis by simp
next
  case (again s3)
  then show ?thesis using feedback_callback_read_holds[OF again(1)] by simp
qed

lemma poll_loop_read_holds:
  assumes "poll_loop E ns pt start reached s = Some y"
  shows "case y of
     Inl (Returned r s') \<Rightarrow> read_holds s' = read_holds s - 1
   | Inl (Raised x s') \<Rightarrow> read_holds s' = read_holds s
   | Inr s' \<Rightarrow> read_holds s' = read_holds s"
proof (rule poll_loop.raw_induct[where P="\<lambda>E ns pt start reached s y. case y of
     Inl (Returned r s') \<Rightarrow> read_holds s' = read_holds s - 1
   | Inl (Raised x s') \<Rightarrow> read_holds s' = read_holds s
   | Inr s' \<Rightarrow> read_holds s' = read_holds s", OF _ assms])
  fix loop :: "'a collaborators \<Rightarrow> string list \<Rightarrow> point \<Rightarrow> int \<Rightarrow> bool list \<Rightarrow> 'a node
     \<Rightarrow> ('a node outcome + 'a node) option"
  fix E ns pt start reached s y
  assume IH: "\<And>E ns pt start reached s y. loop E ns pt start reached s = Some y \<Longrightarrow>
     (case y of
       Inl (Returned r s') \<Rightarrow> read_holds s' = read_holds s - 1
     | Inl (Raised x s') \<Rightarrow> read_holds s' = read_holds s
     | Inr s' \<Rightarrow> read_holds s' = read_holds s)"
  assume step: "(if list_all (\<lambda>b. b) reached then Some (Inr s)
      else case poll_body E ns pt start s of
           Leave out \<Rightarrow> Some (Inl out)
           | Again reached' s' \<Rightarrow> loop E ns pt start reached' s') = Some y"
  show "case y of
       Inl (Returned r s') \<Rightarrow> read_holds s' = read_holds s - 1
     | Inl (Raised x s') \<Rightarrow> read_holds s' = read_holds s
     | Inr s' \<Rightarrow> read_holds s' = read_holds s"
  proof (cases "list_all (\<lambda>b. b) reached")
    case True
    with step show ?thesis by auto
  next
    case False
    note pb = poll_body_read_holds[where E=E and ns=ns and pt=pt and start=start and s=s]
    show ?thesis
    proof (cases "poll_body E ns pt start s")
      case (Leave out)
      with False step have "y = Inl out" by simp
      with pb Leave show ?thesis by simp
    next
      case (Again reached' s')
      with False step have "loop E ns pt start reached' s' = Some y" by simp
      from IH[OF this] pb Again show ?thesis
        by (auto split: sum.splits outcome.splits)
    qed
  qed
qed

lemma execute_points_read_holds:
  "execute_points E ns ps s = Some y \<Longrightarrow>
   (case y of
     Inl (Returned r s') \<Rightarrow> read_holds s' = read_holds s - 1
   | Inl (Raised x s') \<Rightarrow> read_holds s' = read_holds s
   | Inr s' \<Rightarrow> read_holds s' = read_holds s)"
proof (induction ps arbitrary: s)
  case Nil
  then show ?case by auto
next
  case (Cons pt ps)
  let ?v = "set_goal_all E command_groups pt s"
  let ?s3 = "command E Push_Command (init_execution_all E command_groups (get_status E (snd ?v)))"
  let ?s4 = "snd (now E ?s3)"
  have r4: "read_holds ?s4 = read_holds s" by simp
  show ?case
  proof (cases "list_all (\<lambda>b. b) (fst ?v)")
    case False
    with Cons.prems have "y = Inl (return_result (release_read (snd ?v)))" by (simp add: Let_def)
    then show ?thesis by (simp add: return_result_def release_read_def)
  next
    case True
    show ?thesis
    proof (cases "poll_loop E ns pt (fst (now E ?s3)) (goals_reached E ?s3) ?s4")
      case None
      with True Cons.prems show ?thesis by (simp add: Let_def)
    next
      case (Some z)
      note pl = poll_loop_read_holds[OF Some]
      show ?thesis
      proof (cases z)
        case (Inl out)
        with True Some Cons.prems have "y = Inl out" by (simp add: Let_def)
        with pl Inl r4 show ?thesis by (auto split: outcome.splits)
      next
        case (Inr s5)
        with True Some Cons.prems have ep: "execute_points E ns ps s5 = Some y" by (simp add: Let_def)
        have "read_holds s5 = read_holds s" using pl Inr r4 by simp
        with Cons.IH[OF ep] show ?thesis by (auto split: sum.splits outcome.splits)
      qed
    qed
  qed
qed

lemma execute_position_balanced:
  assumes "execute_position E goal s = Some (Returned r s')"
  shows "read_holds s' = read_holds s"
proof -
  let ?names = "joint_names goal"
  let ?s1 = "acquire_read (s\<lparr>goal_state := Goal_Executing, stop_the_robot := False\<rparr>)"
  let ?u = "update_all E command_groups ?names ?s1"
  let ?n = "sum_list (map (\<lambda>c. cg_num_valid E c (world (snd ?u))) command_groups)"
  have ru: "read_holds (snd ?u) = read_holds s + 1" by (simp add: acquire_read_def)
  show ?thesis
  proof (cases "list_all (\<lambda>b. b) (fst ?u)")
    case False
    then have "execute_position E goal s = Some (return_result (release_read (snd ?u)))"
      unfolding execute_position_def Let_def by (simp only: not_not if_True simp_thms)
    with assms ru show ?thesis by (auto simp: return_result_def release_read_def)
  next
    case ok: True
    show ?thesis
    proof (cases "?n \<le> 0")
      case True
      with ok have "execute_position E goal s = Some (return_result (release_read
          (invalid_joints_callback E (No_Valid_Joint_Names ?names) (snd ?u))))"
        unfolding execute_position_def Let_def by (simp only: simp_thms if_True if_False)
      with assms ru show ?thesis by (auto simp: return_result_def release_read_def)
    next
      case pos: False
      show ?thesis
      proof (cases "?n \<noteq> int (length ?names)")
        case True
        with ok pos have "execute_position E goal s = Some (return_result (release_read
            (invalid_joints_callback E (Only_Valid_Joints ?n (length ?names) ?names) (snd ?u))))"
          unfolding execute_position_def Let_def by (simp only: simp_thms if_True if_False)
        with assms ru show ?thesis by (auto simp: return_result_def release_read_def)
      next
        case eq: False
        from ok pos eq have e2: "execute_position E goal s
            = (case execute_points E ?names (points goal) (snd ?u) of
                 None \<Rightarrow> None
               | Some (Inl out) \<Rightarrow> Some out
               | Some (Inr s3) \<Rightarrow> Some (return_result (release_read
                   (success_callback Achieved_All_Target_Points s3))))"
          unfolding execute_position_def Let_def
          by (simp only: simp_thms if_True if_False)
        show ?thesis
        proof (cases "execute_points E ?names (points goal) (snd ?u)")
          case None
          with e2 assms show ?thesis by simp
        next
          case (Some y)
          note ep = execute_points_read_holds[OF Some]
          show ?thesis
          proof (cases y)
            case (Inl o1)
            with Some e2 assms have "o1 = Returned r s'" by simp
            with ep Inl ru show ?thesis by simp
          next
            case (Inr s3)
            with Some e2 assms
            have "Returned r s' = return_result (release_read
                (success_callback Achieved_All_Target_Points s3))" by simp
            with ep Inr ru show ?thesis by (auto simp: return_result_def release_read_def)
          qed
        qed
      qed
    qed
  qed
qed

lemma execute_cb_balanced:
  assumes "execute_cb E goal s = Some (Returned r s')"
  shows "read_holds s' = read_holds s"
proof (cases "robot_mode s = Some ''manipulation''")
  case True
  with assms have "execute_trajectory E goal s = Some (Returned r s')"
    by (simp add: execute_cb_def)
  from execute_trajectory_balanced[OF this] show ?thesis by auto
next
  case False
  with assms have "execute_position E goal s = Some (Returned r s')"
    by (simp add: execute_cb_def)
  then show ?thesis by (rule execute_position_balanced)
qed


end
